theory Spec2Isabelle
  imports Main "HOL-Library.Word"
begin

section \<open>The perception node of easy\_perception\_deployment\<close>

text \<open>
  A shallow embedding of \<^verbatim>\<open>epd_utils_lib/processor.hpp\<close>: the two callbacks of the
  class \<^verbatim>\<open>Processor\<close>, \<^verbatim>\<open>state_callback\<close> (lines 114-123) and
  \<^verbatim>\<open>topic_callback\<close> (lines 125-240). A callback takes the node and a message and
  returns how it completed together with the node afterwards. Everything a callback does
  to the outside (log lines, publications, the shutdown request, the creation of the
  inference session) is appended to the node's list of effects, oldest first.
\<close>

subsection \<open>Messages and images\<close>

text \<open>
  \<^verbatim>\<open>sensor_msgs::msg::Image\<close>: \<^verbatim>\<open>height\<close> and \<^verbatim>\<open>width\<close> are \<^verbatim>\<open>uint32\<close>. The header
  is left out (the node only ever writes a default one) and the pixel bytes are opaque.
\<close>

record 'px Image =
  height :: "32 word"
  width :: "32 word"
  encoding :: string
  data :: 'px

text \<open>\<^verbatim>\<open>std_msgs::msg::String\<close>: a \<^verbatim>\<open>std::string\<close>, which may hold any byte.\<close>

record std_msgs_String =
  data :: string

text \<open>\<^verbatim>\<open>cv::Mat\<close>: \<^verbatim>\<open>rows\<close> and \<^verbatim>\<open>cols\<close> are C \<^verbatim>\<open>int\<close>s; the buffer is opaque.\<close>

record 'px Mat =
  rows :: int
  cols :: int
  pixels :: 'px

text \<open>\<^verbatim>\<open>sensor_msgs::msg::RegionOfInterest\<close>: four \<^verbatim>\<open>uint32\<close> fields and a flag.\<close>

record RegionOfInterest =
  x_offset :: "32 word"
  y_offset :: "32 word"
  height :: "32 word"
  width :: "32 word"
  do_rectify :: bool

text \<open>\<^verbatim>\<open>epd_msgs::msg::EPDImageClassification\<close>, the P1 output message.\<close>

record EPDImageClassification =
  object_names :: "string list"

text \<open>
  \<^verbatim>\<open>epd_msgs::msg::EPDObjectDetection\<close>, the P2 and P3 output message. The type of a
  score is a parameter: scores are only copied.
\<close>

record ('px, 's) epd_msgs_EPDObjectDetection =
  class_indices :: "int list"
  scores :: "'s list"
  bboxes :: "RegionOfInterest list"
  masks :: "'px Image list"

text \<open>
  Modelled from the spec: the struct \<^verbatim>\<open>EPD::EPDObjectDetection\<close> is declared in
  \<^verbatim>\<open>epd_utils_lib/message_utils.hpp\<close>, which is not among the sources. The spec's
  DetectorOutput has \<^verbatim>\<open>data_size\<close> N, N integer class indices, N scores, N boxes
  \<open>(x\<^sub>1, y\<^sub>1, x\<^sub>2, y\<^sub>2)\<close> of integer pixel coordinates and N masks; the field names are the
  ones \<^verbatim>\<open>topic_callback\<close> reads. Nothing in the type forces the lengths to be N.
\<close>

record ('px, 's) EPD_EPDObjectDetection =
  data_size :: nat
  classIndices :: "int list"
  scores :: "'s list"
  bboxes :: "(int \<times> int \<times> int \<times> int) list"
  masks :: "'px Mat list"

text \<open>
  \<^verbatim>\<open>cv_bridge::CvImage(std_msgs::msg::Header(), enc, mat).toImageMsg()\<close>: the image
  message of a matrix, with the encoding given and the matrix's size in the \<^verbatim>\<open>uint32\<close>
  fields.
\<close>

definition toImageMsg :: "string \<Rightarrow> 'px Mat \<Rightarrow> 'px Image" where
  "toImageMsg enc m =
     \<lparr>Image.height = word_of_int (rows m), Image.width = word_of_int (cols m),
      Image.encoding = enc, Image.data = pixels m\<rparr>"

subsection \<open>Completion, effects and the node\<close>

text \<open>
  An exception leaves the callback. \<^verbatim>\<open>Runtime_error\<close> is the \<^verbatim>\<open>std::runtime_error\<close> of
  line 154; an exception of cv\_bridge or of the inference session is kept apart from it
  by its constructor. Reading a \<^verbatim>\<open>std::vector\<close> beyond its size (lines 185-226, when
  \<^verbatim>\<open>data_size\<close> exceeds a vector's size) is undefined in C++; the model aborts the
  callback there with \<^verbatim>\<open>Out_of_range_read\<close>.
\<close>

datatype error =
  Runtime_error string
  | Cv_bridge_exception string
  | Session_exception string
  | Out_of_range_read

datatype completion = Returned | Thrown error

datatype severity = WARN | INFO

text \<open>The four publishers of the node, lines 100-111.\<close>

datatype publisher = visual_pub | p1_pub | p2_pub | p3_pub

definition topic_name :: "publisher \<Rightarrow> string" where
  "topic_name p =
     (case p of
        visual_pub \<Rightarrow> ''/processor/output''
      | p1_pub \<Rightarrow> ''/processor/epd_p1_output''
      | p2_pub \<Rightarrow> ''/processor/epd_p2_output''
      | p3_pub \<Rightarrow> ''/processor/epd_p3_output'')"

datatype ('px, 's) message =
  Image_message "'px Image"
  | Classification_message EPDImageClassification
  | Detection_message "('px, 's) epd_msgs_EPDObjectDetection"

datatype ('px, 's) effect =
  Logged severity string
  | Published publisher "('px, 's) message"
  | Session_created int int
  | Shutdown_requested

text \<open>
  Modelled from the spec: the class \<^verbatim>\<open>EPD::EPDContainer\<close> is declared in
  \<^verbatim>\<open>epd_utils_lib/epd_container.hpp\<close>, which is not among the sources. The spec's
  SessionState is a mutable record \<^verbatim>\<open>{initialized, width, height, precision_level,
  visualize_mode, session_handle}\<close>; the session handle is opaque and is reached
  through the backend below. \<^verbatim>\<open>precision_level\<close> is the public member that line 162
  switches on, an integer that the type does not confine to 1, 2, 3.
\<close>

record EPDContainer =
  initialized :: bool
  width :: int
  height :: int
  precision_level :: int
  visualize_mode :: bool

text \<open>
  Modelled from the spec: the member functions of \<^verbatim>\<open>EPD::EPDContainer\<close> that the node
  calls are not among the sources either. They read and write the fields of the spec's
  SessionState that their names say.
\<close>

definition isInit :: "EPDContainer \<Rightarrow> bool" where
  "isInit a = initialized a"

definition isVisualize :: "EPDContainer \<Rightarrow> bool" where
  "isVisualize a = visualize_mode a"

definition getWidth :: "EPDContainer \<Rightarrow> int" where
  "getWidth a = EPDContainer.width a"

definition getHeight :: "EPDContainer \<Rightarrow> int" where
  "getHeight a = EPDContainer.height a"

definition setFrameDimension :: "EPDContainer \<Rightarrow> int \<Rightarrow> int \<Rightarrow> EPDContainer" where
  "setFrameDimension a w h = a\<lparr>EPDContainer.width := w, EPDContainer.height := h\<rparr>"

definition setInitBoolean :: "EPDContainer \<Rightarrow> bool \<Rightarrow> EPDContainer" where
  "setInitBoolean a b = a\<lparr>initialized := b\<rparr>"

text \<open>
  The collaborators whose code is outside the node: the decoder of cv\_bridge and the
  inference sessions (the spec's session contract \<^verbatim>\<open>classify\<close>, \<^verbatim>\<open>detect\<close>,
  \<^verbatim>\<open>detect_and_render\<close>). They are parameters of the model. Each returns either the
  message of the exception it throws (\<open>Inl\<close>) or its result (\<open>Inr\<close>); \<^verbatim>\<open>load_model\<close>
  is what creating the session does with the container, \<open>None\<close> when it succeeds.
\<close>

record ('px, 's) backend =
  toCvCopy :: "'px Image \<Rightarrow> string \<Rightarrow> string + 'px Mat"
  load_model :: "EPDContainer \<Rightarrow> string option"
  p1_infer :: "'px Mat \<Rightarrow> string + string list"
  p2_infer_visualize :: "'px Mat \<Rightarrow> string + 'px Mat"
  p2_infer_action :: "'px Mat \<Rightarrow> string + ('px, 's) EPD_EPDObjectDetection"
  p3_infer_visualize :: "'px Mat \<Rightarrow> string + 'px Mat"
  p3_infer_action :: "'px Mat \<Rightarrow> string + ('px, 's) EPD_EPDObjectDetection"

text \<open>
  The node: the container (the member \<^verbatim>\<open>ortAgent_\<close>, written without the underscore,
  which cannot end a name here) and what the node has done so far.
\<close>

record ('px, 's) Processor =
  ortAgent :: EPDContainer
  effects :: "('px, 's) effect list"

definition RCLCPP_WARN :: "('px, 's) Processor \<Rightarrow> string \<Rightarrow> ('px, 's) Processor" where
  "RCLCPP_WARN self s = self\<lparr>effects := effects self @ [Logged WARN s]\<rparr>"

definition RCLCPP_INFO :: "('px, 's) Processor \<Rightarrow> string \<Rightarrow> ('px, 's) Processor" where
  "RCLCPP_INFO self s = self\<lparr>effects := effects self @ [Logged INFO s]\<rparr>"

definition publish ::
  "('px, 's) Processor \<Rightarrow> publisher \<Rightarrow> ('px, 's) message \<Rightarrow> ('px, 's) Processor" where
  "publish self p m = self\<lparr>effects := effects self @ [Published p m]\<rparr>"

definition rclcpp_shutdown :: "('px, 's) Processor \<Rightarrow> ('px, 's) Processor" where
  "rclcpp_shutdown self = self\<lparr>effects := effects self @ [Shutdown_requested]\<rparr>"

text \<open>
  Modelled from the spec: \<^verbatim>\<open>EPDContainer::initORTSessionHandler\<close> is not among the
  sources. The spec's session initializer loads the model and allocates tensors sized to
  the stored width and height; it changes no other field of SessionState. A failure is
  a session error, which the node lets through.
\<close>

definition initORTSessionHandler ::
  "('px, 's) backend \<Rightarrow> ('px, 's) Processor \<Rightarrow> completion \<times> ('px, 's) Processor" where
  "initORTSessionHandler env self =
     (case load_model env (ortAgent self) of
        Some what \<Rightarrow> (Thrown (Session_exception what), self)
      | None \<Rightarrow>
          (Returned,
           self\<lparr>effects := effects self @
             [Session_created (getWidth (ortAgent self)) (getHeight (ortAgent self))]\<rparr>))"

subsection \<open>The control plane: \<^verbatim>\<open>state_callback\<close>, lines 114-123\<close>

text \<open>
  Line 116 builds \<^verbatim>\<open>requested_state\<close> from \<^verbatim>\<open>msg->data.c_str()\<close>: a C string ends at
  its first NUL byte, so the copy is the payload up to there.
\<close>

definition c_str :: "string \<Rightarrow> string" where
  "c_str s = takeWhile (\<lambda>c. c \<noteq> CHR 0x00) s"

definition state_callback ::
  "('px, 's) Processor \<Rightarrow> std_msgs_String \<Rightarrow> completion \<times> ('px, 's) Processor" where
  "state_callback self msg =
     (let requested_state = c_str (std_msgs_String.data msg) in
      if requested_state = ''shutdown'' then (Returned, rclcpp_shutdown self)
      else (Returned, RCLCPP_WARN self ''Invalid state requested.''))"

subsection \<open>The frame pipeline: \<^verbatim>\<open>topic_callback\<close>, lines 125-240\<close>

text \<open>
  Lines 142-156. The first frame stores its size, creates the session and sets the
  flag; a later frame is compared with the stored size, and the test of line 153 joins
  the two comparisons with \<^verbatim>\<open>&&\<close>.
\<close>

definition session_bootstrap ::
  "('px, 's) backend \<Rightarrow> ('px, 's) Processor \<Rightarrow> 'px Mat \<Rightarrow> completion \<times> ('px, 's) Processor" where
  "session_bootstrap env self img =
     (if \<not> isInit (ortAgent self) then
        (case initORTSessionHandler env
                (self\<lparr>ortAgent := setFrameDimension (ortAgent self) (cols img) (rows img)\<rparr>) of
           (Thrown e, self') \<Rightarrow> (Thrown e, self')
         | (Returned, self') \<Rightarrow>
             (Returned, self'\<lparr>ortAgent := setInitBoolean (ortAgent self') True\<rparr>))
      else if getWidth (ortAgent self) \<noteq> cols img \<and> getHeight (ortAgent self) \<noteq> rows img
      then (Thrown (Runtime_error ''Input camera changed. Please restart.''), self)
      else (Returned, self))"

text \<open>
  Lines 184-196, the loop of the P2 branch: \<open>i\<close> runs from its start up to
  \<^verbatim>\<open>data_size\<close>, and each round appends one class index, one score and one region.
  The assignments of lines 190-193 convert to \<^verbatim>\<open>uint32\<close>.
\<close>

function p2_loop ::
  "('px, 's) EPD_EPDObjectDetection \<Rightarrow> nat \<Rightarrow> ('px, 's) epd_msgs_EPDObjectDetection \<Rightarrow>
   error + ('px, 's) epd_msgs_EPDObjectDetection" where
  "p2_loop result i output_msg =
     (if i < data_size result then
        (if i < length (classIndices result) \<and>
            i < length (EPD_EPDObjectDetection.scores result) \<and>
            i < length (EPD_EPDObjectDetection.bboxes result)
         then
           (case EPD_EPDObjectDetection.bboxes result ! i of
              (b0, b1, b2, b3) \<Rightarrow>
                (let roi = \<lparr>x_offset = word_of_int b0,
                            y_offset = word_of_int b1,
                            height = word_of_int (b3 - b1),
                            width = word_of_int (b2 - b0),
                            do_rectify = False\<rparr>
                 in p2_loop result (Suc i)
                      (output_msg
                         \<lparr>class_indices := class_indices output_msg @ [classIndices result ! i],
                          epd_msgs_EPDObjectDetection.scores :=
                            epd_msgs_EPDObjectDetection.scores output_msg @
                              [EPD_EPDObjectDetection.scores result ! i],
                          epd_msgs_EPDObjectDetection.bboxes :=
                            epd_msgs_EPDObjectDetection.bboxes output_msg @ [roi]\<rparr>)))
         else Inl Out_of_range_read)
      else Inr output_msg)"
  by pat_completeness auto
termination
  by (relation "measure (\<lambda>(result, i, output_msg). data_size result - i)") auto

declare p2_loop.simps [simp del]

text \<open>
  Lines 212-228, the loop of the P3 branch: as the P2 loop, and each round also wraps
  the mask as a \<^verbatim>\<open>32FC1\<close> image message and appends it.
\<close>

function p3_loop ::
  "('px, 's) EPD_EPDObjectDetection \<Rightarrow> nat \<Rightarrow> ('px, 's) epd_msgs_EPDObjectDetection \<Rightarrow>
   error + ('px, 's) epd_msgs_EPDObjectDetection" where
  "p3_loop result i output_msg =
     (if i < data_size result then
        (if i < length (classIndices result) \<and>
            i < length (EPD_EPDObjectDetection.scores result) \<and>
            i < length (EPD_EPDObjectDetection.bboxes result) \<and>
            i < length (EPD_EPDObjectDetection.masks result)
         then
           (case EPD_EPDObjectDetection.bboxes result ! i of
              (b0, b1, b2, b3) \<Rightarrow>
                (let roi = \<lparr>x_offset = word_of_int b0,
                            y_offset = word_of_int b1,
                            height = word_of_int (b3 - b1),
                            width = word_of_int (b2 - b0),
                            do_rectify = False\<rparr>;
                     mask = toImageMsg ''32FC1'' (EPD_EPDObjectDetection.masks result ! i)
                 in p3_loop result (Suc i)
                      (output_msg
                         \<lparr>class_indices := class_indices output_msg @ [classIndices result ! i],
                          epd_msgs_EPDObjectDetection.scores :=
                            epd_msgs_EPDObjectDetection.scores output_msg @
                              [EPD_EPDObjectDetection.scores result ! i],
                          epd_msgs_EPDObjectDetection.bboxes :=
                            epd_msgs_EPDObjectDetection.bboxes output_msg @ [roi],
                          epd_msgs_EPDObjectDetection.masks :=
                            epd_msgs_EPDObjectDetection.masks output_msg @ [mask]\<rparr>)))
         else Inl Out_of_range_read)
      else Inr output_msg)"
  by pat_completeness auto
termination
  by (relation "measure (\<lambda>(result, i, output_msg). data_size result - i)") auto

declare p3_loop.simps [simp del]

text \<open>A default-constructed \<^verbatim>\<open>epd_msgs::msg::EPDObjectDetection\<close> (lines 183, 211).\<close>

definition empty_detection :: "('px, 's) epd_msgs_EPDObjectDetection" where
  "empty_detection =
     \<lparr>class_indices = [], epd_msgs_EPDObjectDetection.scores = [],
      epd_msgs_EPDObjectDetection.bboxes = [], epd_msgs_EPDObjectDetection.masks = []\<rparr>"

text \<open>
  Lines 162-234, the switch on \<^verbatim>\<open>precision_level\<close>. It has the cases 1, 2 and 3 and no
  default.
\<close>

definition inference_dispatch ::
  "('px, 's) backend \<Rightarrow> ('px, 's) Processor \<Rightarrow> 'px Mat \<Rightarrow> completion \<times> ('px, 's) Processor" where
  "inference_dispatch env self img =
     (if precision_level (ortAgent self) = 1 then
        (case p1_infer env img of
           Inl what \<Rightarrow> (Thrown (Session_exception what), self)
         | Inr names \<Rightarrow>
             (Returned, publish self p1_pub (Classification_message \<lparr>object_names = names\<rparr>)))
      else if precision_level (ortAgent self) = 2 then
        (if isVisualize (ortAgent self) then
           (case p2_infer_visualize env img of
              Inl what \<Rightarrow> (Thrown (Session_exception what), self)
            | Inr resultImg \<Rightarrow>
                (Returned, publish self visual_pub (Image_message (toImageMsg ''bgr8'' resultImg))))
         else
           (case p2_infer_action env img of
              Inl what \<Rightarrow> (Thrown (Session_exception what), self)
            | Inr result \<Rightarrow>
                (case p2_loop result 0 empty_detection of
                   Inl e \<Rightarrow> (Thrown e, self)
                 | Inr output_msg \<Rightarrow>
                     (Returned, publish self p2_pub (Detection_message output_msg)))))
      else if precision_level (ortAgent self) = 3 then
        (if isVisualize (ortAgent self) then
           (case p3_infer_visualize env img of
              Inl what \<Rightarrow> (Thrown (Session_exception what), self)
            | Inr resultImg \<Rightarrow>
                (Returned, publish self visual_pub (Image_message (toImageMsg ''bgr8'' resultImg))))
         else
           (case p3_infer_action env img of
              Inl what \<Rightarrow> (Thrown (Session_exception what), self)
            | Inr result \<Rightarrow>
                (case p3_loop result 0 empty_detection of
                   Inl e \<Rightarrow> (Thrown e, self)
                 | Inr output_msg \<Rightarrow>
                     (Returned, publish self p3_pub (Detection_message output_msg)))))
      else (Returned, self))"

text \<open>
  Lines 142-239: what the callback does with a decoded frame. The two clock readings of
  lines 159 and 237 leave no trace but the log line of line 239, whose number is not
  modelled.
\<close>

definition process_frame ::
  "('px, 's) backend \<Rightarrow> ('px, 's) Processor \<Rightarrow> 'px Mat \<Rightarrow> completion \<times> ('px, 's) Processor" where
  "process_frame env self img =
     (case session_bootstrap env self img of
        (Thrown e, self') \<Rightarrow> (Thrown e, self')
      | (Returned, self') \<Rightarrow>
          (case inference_dispatch env self' img of
             (Thrown e, self'') \<Rightarrow> (Thrown e, self'')
           | (Returned, self'') \<Rightarrow> (Returned, RCLCPP_INFO self'' ''[-FPS-]= %f\<newline>'')))"

text \<open>
  Lines 125-240. The guard of line 133 reads the height of the message and nothing
  else; line 139 decodes to \<^verbatim>\<open>bgr8\<close>.
\<close>

definition topic_callback ::
  "('px, 's) backend \<Rightarrow> ('px, 's) Processor \<Rightarrow> 'px Image \<Rightarrow> completion \<times> ('px, 's) Processor" where
  "topic_callback env self msg =
     (if Image.height msg = 0 then (Returned, RCLCPP_WARN self ''Input image empty. Discarding.'')
      else
        (case toCvCopy env msg ''bgr8'' of
           Inl what \<Rightarrow> (Thrown (Cv_bridge_exception what), self)
         | Inr img \<Rightarrow> process_frame env self img))"

subsection \<open>What the spec says the projector produces\<close>

text \<open>
  The spec's RegionOfInterest of a box \<open>(x\<^sub>1, y\<^sub>1, x\<^sub>2, y\<^sub>2)\<close>: the offset is \<open>(x\<^sub>1, y\<^sub>1)\<close>,
  the extent is \<open>(x\<^sub>2 - x\<^sub>1, y\<^sub>2 - y\<^sub>1)\<close>, the flag is false. The fields are \<^verbatim>\<open>uint32\<close>.
\<close>

definition spec_roi :: "int \<times> int \<times> int \<times> int \<Rightarrow> RegionOfInterest" where
  "spec_roi b =
     (case b of
        (x1, y1, x2, y2) \<Rightarrow>
          \<lparr>x_offset = word_of_int x1, y_offset = word_of_int y1,
           height = word_of_int (y2 - y1), width = word_of_int (x2 - x1),
           do_rectify = False\<rparr>)"

text \<open>
  The spec's Result Projector, boxes-only form and form with masks: for each index
  below N, in order, the class index, the score, the region of the box and (P3) the mask
  wrapped as a \<^verbatim>\<open>32FC1\<close> image.
\<close>

definition spec_projection_p2 ::
  "('px, 's) EPD_EPDObjectDetection \<Rightarrow> ('px, 's) epd_msgs_EPDObjectDetection" where
  "spec_projection_p2 result =
     \<lparr>class_indices = take (data_size result) (classIndices result),
      epd_msgs_EPDObjectDetection.scores =
        take (data_size result) (EPD_EPDObjectDetection.scores result),
      epd_msgs_EPDObjectDetection.bboxes =
        map spec_roi (take (data_size result) (EPD_EPDObjectDetection.bboxes result)),
      epd_msgs_EPDObjectDetection.masks = []\<rparr>"

definition spec_projection_p3 ::
  "('px, 's) EPD_EPDObjectDetection \<Rightarrow> ('px, 's) epd_msgs_EPDObjectDetection" where
  "spec_projection_p3 result =
     \<lparr>class_indices = take (data_size result) (classIndices result),
      epd_msgs_EPDObjectDetection.scores =
        take (data_size result) (EPD_EPDObjectDetection.scores result),
      epd_msgs_EPDObjectDetection.bboxes =
        map spec_roi (take (data_size result) (EPD_EPDObjectDetection.bboxes result)),
      epd_msgs_EPDObjectDetection.masks =
        map (toImageMsg ''32FC1'')
          (take (data_size result) (EPD_EPDObjectDetection.masks result))\<rparr>"

subsection \<open>Observing the node\<close>

text \<open>The publications among the effects, in order, and the number of sessions created.\<close>

fun publications :: "('px, 's) effect list \<Rightarrow> (publisher \<times> ('px, 's) message) list" where
  "publications [] = []"
| "publications (Published p m # es) = (p, m) # publications es"
| "publications (e # es) = publications es"

fun sessions_created :: "('px, 's) effect list \<Rightarrow> nat" where
  "sessions_created [] = 0"
| "sessions_created (Session_created w h # es) = Suc (sessions_created es)"
| "sessions_created (e # es) = sessions_created es"

text \<open>
  The host dispatches the frames in arrival order, each callback running to completion
  before the next; an exception that leaves a callback ends the node.
\<close>

fun run_frames ::
  "('px, 's) backend \<Rightarrow> ('px, 's) Processor \<Rightarrow> 'px Image list \<Rightarrow>
   completion \<times> ('px, 's) Processor" where
  "run_frames env self [] = (Returned, self)"
| "run_frames env self (msg # msgs) =
     (case topic_callback env self msg of
        (Thrown e, self') \<Rightarrow> (Thrown e, self')
      | (Returned, self') \<Rightarrow> run_frames env self' msgs)"

subsection \<open>Stubs of the spec's scenarios\<close>

text \<open>
  A backend as in the spec's end-to-end scenarios: the decoder yields a buffer of the
  message's size, the classifier returns cup and book, the P2 detector two boxes, the P3
  detector one box with one mask, and rendering returns the frame. Scores are written
  in percent.
\<close>

definition stub_p2_detection :: "(unit, nat) EPD_EPDObjectDetection" where
  "stub_p2_detection =
     \<lparr>data_size = 2, classIndices = [3, 7],
      EPD_EPDObjectDetection.scores = [90, 40],
      EPD_EPDObjectDetection.bboxes = [(10, 20, 110, 220), (5, 5, 15, 25)],
      EPD_EPDObjectDetection.masks = []\<rparr>"

definition stub_p3_detection :: "(unit, nat) EPD_EPDObjectDetection" where
  "stub_p3_detection =
     \<lparr>data_size = 1, classIndices = [3],
      EPD_EPDObjectDetection.scores = [90],
      EPD_EPDObjectDetection.bboxes = [(0, 0, 32, 32)],
      EPD_EPDObjectDetection.masks = [\<lparr>rows = 32, cols = 32, pixels = ()\<rparr>]\<rparr>"

definition stub_backend :: "(unit, nat) backend" where
  "stub_backend =
     \<lparr>toCvCopy = (\<lambda>msg enc.
        Inr \<lparr>rows = uint (Image.height msg), cols = uint (Image.width msg),
             pixels = Image.data msg\<rparr>),
      load_model = (\<lambda>a. None),
      p1_infer = (\<lambda>img. Inr [''cup'', ''book'']),
      p2_infer_visualize = (\<lambda>img. Inr img),
      p2_infer_action = (\<lambda>img. Inr stub_p2_detection),
      p3_infer_visualize = (\<lambda>img. Inr img),
      p3_infer_action = (\<lambda>img. Inr stub_p3_detection)\<rparr>"

definition frame :: "int \<Rightarrow> int \<Rightarrow> unit Image" where
  "frame w h =
     \<lparr>Image.height = word_of_int h, Image.width = word_of_int w,
      Image.encoding = ''bgr8'', Image.data = ()\<rparr>"

definition fresh_node :: "int \<Rightarrow> bool \<Rightarrow> (unit, nat) Processor" where
  "fresh_node level vis =
     \<lparr>ortAgent = \<lparr>initialized = False, EPDContainer.width = 0, EPDContainer.height = 0,
                  precision_level = level, visualize_mode = vis\<rparr>,
      effects = []\<rparr>"

definition running_node :: "int \<Rightarrow> bool \<Rightarrow> (unit, nat) Processor" where
  "running_node level vis =
     \<lparr>ortAgent = \<lparr>initialized = True, EPDContainer.width = 640, EPDContainer.height = 480,
                  precision_level = level, visualize_mode = vis\<rparr>,
      effects = [Session_created 640 480]\<rparr>"

section \<open>Properties\<close>

subsection \<open>The projection loops in closed form\<close>

text \<open>
  Each loop is unfolded one round at a time; by induction on the number of rounds left
  it returns the spec's projection when no vector is shorter than \<^verbatim>\<open>data_size\<close>, and
  aborts otherwise.
\<close>

lemma publications_append:
  "publications (es @ fs) = publications es @ publications fs"
  by (induction es rule: publications.induct) simp_all

lemma sessions_created_append:
  "sessions_created (es @ fs) = sessions_created es + sessions_created fs"
  by (induction es rule: sessions_created.induct) simp_all

lemma p2_loop_stop: "\<not> i < data_size r \<Longrightarrow> p2_loop r i out = Inr out"
  by (subst p2_loop.simps) simp

lemma p2_loop_abort:
  "i < data_size r \<Longrightarrow>
   \<not> (i < length (classIndices r) \<and> i < length (EPD_EPDObjectDetection.scores r) \<and>
      i < length (EPD_EPDObjectDetection.bboxes r)) \<Longrightarrow>
   p2_loop r i out = Inl Out_of_range_read"
  by (subst p2_loop.simps) auto

lemma p2_loop_step:
  "i < data_size r \<Longrightarrow> i < length (classIndices r) \<Longrightarrow>
   i < length (EPD_EPDObjectDetection.scores r) \<Longrightarrow>
   i < length (EPD_EPDObjectDetection.bboxes r) \<Longrightarrow>
   p2_loop r i out =
     p2_loop r (Suc i)
       (out\<lparr>class_indices := class_indices out @ [classIndices r ! i],
            epd_msgs_EPDObjectDetection.scores :=
              epd_msgs_EPDObjectDetection.scores out @ [EPD_EPDObjectDetection.scores r ! i],
            epd_msgs_EPDObjectDetection.bboxes :=
              epd_msgs_EPDObjectDetection.bboxes out @
                [spec_roi (EPD_EPDObjectDetection.bboxes r ! i)]\<rparr>)"
  by (subst p2_loop.simps) (simp add: spec_roi_def split: prod.splits)

lemma drop_take_step:
  "i < n \<Longrightarrow> i < length xs \<Longrightarrow> drop i (take n xs) = xs ! i # drop (Suc i) (take n xs)"
  by (simp add: Cons_nth_drop_Suc [symmetric])

lemma p2_loop_closed:
  assumes "i \<le> data_size r"
    and "i \<le> length (classIndices r)"
    and "i \<le> length (EPD_EPDObjectDetection.scores r)"
    and "i \<le> length (EPD_EPDObjectDetection.bboxes r)"
  shows "p2_loop r i out =
    (if data_size r \<le> length (classIndices r) \<and>
        data_size r \<le> length (EPD_EPDObjectDetection.scores r) \<and>
        data_size r \<le> length (EPD_EPDObjectDetection.bboxes r)
     then Inr (out\<lparr>class_indices :=
                    class_indices out @ drop i (take (data_size r) (classIndices r)),
                  epd_msgs_EPDObjectDetection.scores :=
                    epd_msgs_EPDObjectDetection.scores out @
                      drop i (take (data_size r) (EPD_EPDObjectDetection.scores r)),
                  epd_msgs_EPDObjectDetection.bboxes :=
                    epd_msgs_EPDObjectDetection.bboxes out @
                      map spec_roi (drop i (take (data_size r) (EPD_EPDObjectDetection.bboxes r)))\<rparr>)
     else Inl Out_of_range_read)"
  using assms
proof (induction "data_size r - i" arbitrary: i out)
  case 0
  then have "i = data_size r" by simp
  with "0.prems" show ?case by (simp add: p2_loop_stop)
next
  case (Suc n)
  then have lt: "i < data_size r" by simp
  show ?case
  proof (cases "i < length (classIndices r) \<and> i < length (EPD_EPDObjectDetection.scores r) \<and>
      i < length (EPD_EPDObjectDetection.bboxes r)")
    case False
    with lt show ?thesis by (auto simp: p2_loop_abort)
  next
    case True
    have n: "n = data_size r - Suc i" using Suc.hyps(2) by simp
    show ?thesis
      using lt True
      by (simp add: p2_loop_step Suc.hyps(1) [OF n] drop_take_step)
  qed
qed

lemma p2_loop_from_0:
  "p2_loop r 0 empty_detection =
    (if data_size r \<le> length (classIndices r) \<and>
        data_size r \<le> length (EPD_EPDObjectDetection.scores r) \<and>
        data_size r \<le> length (EPD_EPDObjectDetection.bboxes r)
     then Inr (spec_projection_p2 r) else Inl Out_of_range_read)"
  by (simp add: p2_loop_closed empty_detection_def spec_projection_p2_def)


lemma p3_loop_stop: "\<not> i < data_size r \<Longrightarrow> p3_loop r i out = Inr out"
  by (subst p3_loop.simps) simp

lemma p3_loop_abort:
  "i < data_size r \<Longrightarrow>
   \<not> (i < length (classIndices r) \<and> i < length (EPD_EPDObjectDetection.scores r) \<and>
      i < length (EPD_EPDObjectDetection.bboxes r) \<and>
      i < length (EPD_EPDObjectDetection.masks r)) \<Longrightarrow>
   p3_loop r i out = Inl Out_of_range_read"
  by (subst p3_loop.simps) auto

lemma p3_loop_step:
  "i < data_size r \<Longrightarrow> i < length (classIndices r) \<Longrightarrow>
   i < length (EPD_EPDObjectDetection.scores r) \<Longrightarrow>
   i < length (EPD_EPDObjectDetection.bboxes r) \<Longrightarrow>
   i < length (EPD_EPDObjectDetection.masks r) \<Longrightarrow>
   p3_loop r i out =
     p3_loop r (Suc i)
       (out\<lparr>class_indices := class_indices out @ [classIndices r ! i],
            epd_msgs_EPDObjectDetection.scores :=
              epd_msgs_EPDObjectDetection.scores out @ [EPD_EPDObjectDetection.scores r ! i],
            epd_msgs_EPDObjectDetection.bboxes :=
              epd_msgs_EPDObjectDetection.bboxes out @
                [spec_roi (EPD_EPDObjectDetection.bboxes r ! i)],
            epd_msgs_EPDObjectDetection.masks :=
              epd_msgs_EPDObjectDetection.masks out @
                [toImageMsg ''32FC1'' (EPD_EPDObjectDetection.masks r ! i)]\<rparr>)"
  by (subst p3_loop.simps) (simp add: spec_roi_def split: prod.splits)

lemma p3_loop_closed:
  assumes "i \<le> data_size r"
    and "i \<le> length (classIndices r)"
    and "i \<le> length (EPD_EPDObjectDetection.scores r)"
    and "i \<le> length (EPD_EPDObjectDetection.bboxes r)"
    and "i \<le> length (EPD_EPDObjectDetection.masks r)"
  shows "p3_loop r i out =
    (if data_size r \<le> length (classIndices r) \<and>
        data_size r \<le> length (EPD_EPDObjectDetection.scores r) \<and>
        data_size r \<le> length (EPD_EPDObjectDetection.bboxes r) \<and>
        data_size r \<le> length (EPD_EPDObjectDetection.masks r)
     then Inr (out\<lparr>class_indices :=
                    class_indices out @ drop i (take (data_size r) (classIndices r)),
                  epd_msgs_EPDObjectDetection.scores :=
                    epd_msgs_EPDObjectDetection.scores out @
                      drop i (take (data_size r) (EPD_EPDObjectDetection.scores r)),
                  epd_msgs_EPDObjectDetection.bboxes :=
                    epd_msgs_EPDObjectDetection.bboxes out @
                      map spec_roi (drop i (take (data_size r) (EPD_EPDObjectDetection.bboxes r))),
                  epd_msgs_EPDObjectDetection.masks :=
                    epd_msgs_EPDObjectDetection.masks out @
                      map (toImageMsg ''32FC1'')
                        (drop i (take (data_size r) (EPD_EPDObjectDetection.masks r)))\<rparr>)
     else Inl Out_of_range_read)"
  using assms
proof (induction "data_size r - i" arbitrary: i out)
  case 0
  then have "i = data_size r" by simp
  with "0.prems" show ?case by (simp add: p3_loop_stop)
next
  case (Suc n)
  then have lt: "i < data_size r" by simp
  show ?case
  proof (cases "i < length (classIndices r) \<and> i < length (EPD_EPDObjectDetection.scores r) \<and>
      i < length (EPD_EPDObjectDetection.bboxes r) \<and> i < length (EPD_EPDObjectDetection.masks r)")
    case False
    with lt show ?thesis by (auto simp: p3_loop_abort)
  next
    case True
    have n: "n = data_size r - Suc i" using Suc.hyps(2) by simp
    show ?thesis
      using lt True
      by (simp add: p3_loop_step Suc.hyps(1) [OF n] drop_take_step)
  qed
qed

lemma p3_loop_from_0:
  "p3_loop r 0 empty_detection =
    (if data_size r \<le> length (classIndices r) \<and>
        data_size r \<le> length (EPD_EPDObjectDetection.scores r) \<and>
        data_size r \<le> length (EPD_EPDObjectDetection.bboxes r) \<and>
        data_size r \<le> length (EPD_EPDObjectDetection.masks r)
     then Inr (spec_projection_p3 r) else Inl Out_of_range_read)"
  by (simp add: p3_loop_closed empty_detection_def spec_projection_p3_def)

lemma session_bootstrap_keeps:
  assumes "session_bootstrap env self img = (c, self')"
  shows "precision_level (ortAgent self') = precision_level (ortAgent self)"
    and "visualize_mode (ortAgent self') = visualize_mode (ortAgent self)"
    and "publications (effects self') = publications (effects self)"
  using assms
  by (auto simp: session_bootstrap_def initORTSessionHandler_def setFrameDimension_def
      setInitBoolean_def publications_append split: if_splits option.splits)

lemma topic_callback_Returned:
  assumes "topic_callback env self msg = (Returned, self')"
    and "Image.height msg \<noteq> 0"
  obtains img s1 s2 where "toCvCopy env msg ''bgr8'' = Inr img"
    and "session_bootstrap env self img = (Returned, s1)"
    and "inference_dispatch env s1 img = (Returned, s2)"
    and "self' = RCLCPP_INFO s2 ''[-FPS-]= %f\<newline>''"
  using assms
  by (auto simp: topic_callback_def process_frame_def
      split: sum.splits prod.splits completion.splits)

lemma inference_dispatch_p2:
  assumes "inference_dispatch env self img = (Returned, self')"
    and "precision_level (ortAgent self) = 2"
    and "\<not> isVisualize (ortAgent self)"
    and "p2_infer_action env img = Inr result"
  shows "self' = publish self p2_pub (Detection_message (spec_projection_p2 result))"
    and "data_size result \<le> length (classIndices result)"
    and "data_size result \<le> length (EPD_EPDObjectDetection.scores result)"
    and "data_size result \<le> length (EPD_EPDObjectDetection.bboxes result)"
  using assms
  by (auto simp: inference_dispatch_def p2_loop_from_0 split: if_splits)

lemma inference_dispatch_p3:
  assumes "inference_dispatch env self img = (Returned, self')"
    and "precision_level (ortAgent self) = 3"
    and "\<not> isVisualize (ortAgent self)"
    and "p3_infer_action env img = Inr result"
  shows "self' = publish self p3_pub (Detection_message (spec_projection_p3 result))"
    and "data_size result \<le> length (classIndices result)"
    and "data_size result \<le> length (EPD_EPDObjectDetection.scores result)"
    and "data_size result \<le> length (EPD_EPDObjectDetection.bboxes result)"
    and "data_size result \<le> length (EPD_EPDObjectDetection.masks result)"
  using assms
  by (auto simp: inference_dispatch_def p3_loop_from_0 split: if_splits)

lemma publications_RCLCPP_INFO [simp]:
  "publications (effects (RCLCPP_INFO s txt)) = publications (effects s)"
  by (simp add: RCLCPP_INFO_def publications_append)

lemma publications_RCLCPP_WARN [simp]:
  "publications (effects (RCLCPP_WARN s txt)) = publications (effects s)"
  by (simp add: RCLCPP_WARN_def publications_append)

lemma publications_publish [simp]:
  "publications (effects (publish s p m)) = publications (effects s) @ [(p, m)]"
  by (simp add: publish_def publications_append)

lemma topic_callback_p2_structured:
  assumes "topic_callback env self msg = (Returned, self')"
    and "Image.height msg \<noteq> 0"
    and "toCvCopy env msg ''bgr8'' = Inr img"
    and "precision_level (ortAgent self) = 2"
    and "\<not> isVisualize (ortAgent self)"
    and "p2_infer_action env img = Inr result"
  shows "publications (effects self') =
      publications (effects self) @ [(p2_pub, Detection_message (spec_projection_p2 result))]"
    and "data_size result \<le> length (classIndices result)"
    and "data_size result \<le> length (EPD_EPDObjectDetection.scores result)"
    and "data_size result \<le> length (EPD_EPDObjectDetection.bboxes result)"
proof -
  from assms(1,2) obtain img' s1 s2 where d: "toCvCopy env msg ''bgr8'' = Inr img'"
    and b: "session_bootstrap env self img' = (Returned, s1)"
    and i: "inference_dispatch env s1 img' = (Returned, s2)"
    and s: "self' = RCLCPP_INFO s2 ''[-FPS-]= %f\<newline>''"
    by (rule topic_callback_Returned)
  from d assms(3) have [simp]: "img' = img" by simp
  have p: "precision_level (ortAgent s1) = 2" "\<not> isVisualize (ortAgent s1)"
    using session_bootstrap_keeps [OF b] assms(4,5) by (simp_all add: isVisualize_def)
  note r = inference_dispatch_p2 [OF i [simplified] p assms(6)]
  show "publications (effects self') =
      publications (effects self) @ [(p2_pub, Detection_message (spec_projection_p2 result))]"
    using r(1) s session_bootstrap_keeps(3) [OF b] by simp
  show "data_size result \<le> length (classIndices result)"
    and "data_size result \<le> length (EPD_EPDObjectDetection.scores result)"
    and "data_size result \<le> length (EPD_EPDObjectDetection.bboxes result)"
    using r by simp_all
qed

lemma topic_callback_p3_structured:
  assumes "topic_callback env self msg = (Returned, self')"
    and "Image.height msg \<noteq> 0"
    and "toCvCopy env msg ''bgr8'' = Inr img"
    and "precision_level (ortAgent self) = 3"
    and "\<not> isVisualize (ortAgent self)"
    and "p3_infer_action env img = Inr result"
  shows "publications (effects self') =
      publications (effects self) @ [(p3_pub, Detection_message (spec_projection_p3 result))]"
    and "data_size result \<le> length (classIndices result)"
    and "data_size result \<le> length (EPD_EPDObjectDetection.scores result)"
    and "data_size result \<le> length (EPD_EPDObjectDetection.bboxes result)"
    and "data_size result \<le> length (EPD_EPDObjectDetection.masks result)"
proof -
  from assms(1,2) obtain img' s1 s2 where d: "toCvCopy env msg ''bgr8'' = Inr img'"
    and b: "session_bootstrap env self img' = (Returned, s1)"
    and i: "inference_dispatch env s1 img' = (Returned, s2)"
    and s: "self' = RCLCPP_INFO s2 ''[-FPS-]= %f\<newline>''"
    by (rule topic_callback_Returned)
  from d assms(3) have [simp]: "img' = img" by simp
  have p: "precision_level (ortAgent s1) = 3" "\<not> isVisualize (ortAgent s1)"
    using session_bootstrap_keeps [OF b] assms(4,5) by (simp_all add: isVisualize_def)
  note r = inference_dispatch_p3 [OF i [simplified] p assms(6)]
  show "publications (effects self') =
      publications (effects self) @ [(p3_pub, Detection_message (spec_projection_p3 result))]"
    using r(1) s session_bootstrap_keeps(3) [OF b] by simp
  show "data_size result \<le> length (classIndices result)"
    and "data_size result \<le> length (EPD_EPDObjectDetection.scores result)"
    and "data_size result \<le> length (EPD_EPDObjectDetection.bboxes result)"
    and "data_size result \<le> length (EPD_EPDObjectDetection.masks result)"
    using r by simp_all
qed

subsection \<open>Frame ingress and session bootstrap\<close>

text \<open>
  Claim C1. A frame is a decoded image of a message whose height is not zero. For every
  frame that arrives after the session is initialized, the callback throws the runtime
  error \<^verbatim>\<open>Input camera changed. Please restart.\<close> if and only if both the column count
  differs from the stored width and the row count differs from the stored height; it
  throws no other runtime error, and the node is left as it was. When at most one of
  the two differs, the callback goes on to the dispatch and the latency log.
\<close>

theorem C1_geometry_change_rule:
  assumes "isInit (ortAgent self)"
    and "Image.height msg \<noteq> 0"
    and "toCvCopy env msg ''bgr8'' = Inr img"
  shows "(fst (topic_callback env self msg) =
            Thrown (Runtime_error ''Input camera changed. Please restart.'')
          \<longleftrightarrow> cols img \<noteq> getWidth (ortAgent self) \<and> rows img \<noteq> getHeight (ortAgent self))
    \<and> ((\<exists>what. fst (topic_callback env self msg) = Thrown (Runtime_error what))
          \<longleftrightarrow> cols img \<noteq> getWidth (ortAgent self) \<and> rows img \<noteq> getHeight (ortAgent self))
    \<and> (cols img \<noteq> getWidth (ortAgent self) \<and> rows img \<noteq> getHeight (ortAgent self) \<longrightarrow>
          snd (topic_callback env self msg) = self)
    \<and> (cols img = getWidth (ortAgent self) \<or> rows img = getHeight (ortAgent self) \<longrightarrow>
          topic_callback env self msg =
            (case inference_dispatch env self img of
               (Thrown e, self') \<Rightarrow> (Thrown e, self')
             | (Returned, self') \<Rightarrow> (Returned, RCLCPP_INFO self' ''[-FPS-]= %f\<newline>'')))"
proof -
  have no_runtime: "fst (inference_dispatch env self img) \<noteq> Thrown (Runtime_error what)" for what
    by (simp add: inference_dispatch_def p2_loop_from_0 p3_loop_from_0 split: sum.splits)
  show ?thesis
  proof (cases "cols img \<noteq> getWidth (ortAgent self) \<and> rows img \<noteq> getHeight (ortAgent self)")
    case True
    with assms show ?thesis
      by (auto simp: topic_callback_def process_frame_def session_bootstrap_def)
  next
    case False
    with assms have eq: "topic_callback env self msg =
            (case inference_dispatch env self img of
               (Thrown e, self') \<Rightarrow> (Thrown e, self')
             | (Returned, self') \<Rightarrow> (Returned, RCLCPP_INFO self' ''[-FPS-]= %f\<newline>''))"
      by (auto simp: topic_callback_def process_frame_def session_bootstrap_def)
    have "fst (topic_callback env self msg) \<noteq> Thrown (Runtime_error what)" for what
      using no_runtime [of what] unfolding eq
      by (cases "inference_dispatch env self img") (auto split: completion.splits)
    with False eq show ?thesis by auto
  qed
qed

text \<open>
  The node runs at 640 by 480. A frame of 320 by 240 is fatal; a frame of 640 by 240,
  where only the height differs, is not.
\<close>

theorem C1_geometry_change_rule_witness:
  "isInit (ortAgent (running_node 1 False))
   \<and> Image.height (frame 320 240) \<noteq> 0
   \<and> toCvCopy stub_backend (frame 320 240) ''bgr8'' = Inr \<lparr>rows = 240, cols = 320, pixels = ()\<rparr>
   \<and> getWidth (ortAgent (running_node 1 False)) = 640
   \<and> getHeight (ortAgent (running_node 1 False)) = 480
   \<and> fst (topic_callback stub_backend (running_node 1 False) (frame 320 240)) =
       Thrown (Runtime_error ''Input camera changed. Please restart.'')
   \<and> Image.height (frame 640 240) \<noteq> 0
   \<and> toCvCopy stub_backend (frame 640 240) ''bgr8'' = Inr \<lparr>rows = 240, cols = 640, pixels = ()\<rparr>
   \<and> fst (topic_callback stub_backend (running_node 1 False) (frame 640 240)) \<noteq>
       Thrown (Runtime_error ''Input camera changed. Please restart.'')"
proof -
  have a: "isInit (ortAgent (running_node 1 False))"
    by (simp add: running_node_def isInit_def)
  have h1: "Image.height (frame 320 240) \<noteq> 0" and h2: "Image.height (frame 640 240) \<noteq> 0"
    by (simp_all add: frame_def)
  have d1: "toCvCopy stub_backend (frame 320 240) ''bgr8'' = Inr \<lparr>rows = 240, cols = 320, pixels = ()\<rparr>"
    and d2: "toCvCopy stub_backend (frame 640 240) ''bgr8'' = Inr \<lparr>rows = 240, cols = 640, pixels = ()\<rparr>"
    by (simp_all add: frame_def stub_backend_def)
  have g: "getWidth (ortAgent (running_node 1 False)) = 640"
    "getHeight (ortAgent (running_node 1 False)) = 480"
    by (simp_all add: running_node_def getWidth_def getHeight_def)
  have t1: "fst (topic_callback stub_backend (running_node 1 False) (frame 320 240)) =
       Thrown (Runtime_error ''Input camera changed. Please restart.'')"
    using C1_geometry_change_rule [OF a h1 d1, THEN conjunct1] g by simp
  have t2: "fst (topic_callback stub_backend (running_node 1 False) (frame 640 240)) \<noteq>
       Thrown (Runtime_error ''Input camera changed. Please restart.'')"
    using C1_geometry_change_rule [OF a h2 d2, THEN conjunct1] g by simp
  show ?thesis
    using a h1 h2 d1 d2 g t1 t2 by blast
qed

text \<open>
  Claim C2. For every image message whose height is 0 the callback returns normally,
  having appended the warning \<^verbatim>\<open>Input image empty. Discarding.\<close> and nothing else: no
  message is published, the container is unchanged (so the session is not initialized
  by it), no session is created, and a run goes on with the later frames.
\<close>

theorem C2_empty_frame_dropped:
  assumes "Image.height msg = 0"
  shows "topic_callback env self msg =
      (Returned, self\<lparr>effects := effects self @ [Logged WARN ''Input image empty. Discarding.'']\<rparr>)
    \<and> fst (topic_callback env self msg) = Returned
    \<and> ortAgent (snd (topic_callback env self msg)) = ortAgent self
    \<and> isInit (ortAgent (snd (topic_callback env self msg))) = isInit (ortAgent self)
    \<and> publications (effects (snd (topic_callback env self msg))) = publications (effects self)
    \<and> sessions_created (effects (snd (topic_callback env self msg))) =
        sessions_created (effects self)
    \<and> run_frames env self (msg # later) = run_frames env (snd (topic_callback env self msg)) later"
  using assms
  by (simp add: topic_callback_def RCLCPP_WARN_def publications_append sessions_created_append)

theorem C2_empty_frame_dropped_witness:
  "Image.height (frame 640 0) = 0
   \<and> topic_callback stub_backend (fresh_node 2 False) (frame 640 0) =
       (Returned,
        \<lparr>ortAgent = \<lparr>initialized = False, EPDContainer.width = 0, EPDContainer.height = 0,
                     precision_level = 2, visualize_mode = False\<rparr>,
         effects = [Logged WARN ''Input image empty. Discarding.'']\<rparr>)
   \<and> publications (effects (snd (topic_callback stub_backend (fresh_node 2 False) (frame 640 0)))) = []"
  using C2_empty_frame_dropped [of "frame 640 0" stub_backend "fresh_node 2 False" "[]"]
  by (simp add: frame_def fresh_node_def)

subsection \<open>The structured output of a frame\<close>

text \<open>
  A P2 or P3 frame with visualization off whose callback returns has published, and
  published last, the spec's projection of what the detector returned; and no vector
  of the detector was shorter than \<^verbatim>\<open>data_size\<close>.
\<close>

lemma structured_output:
  assumes "topic_callback env self msg = (Returned, self')"
    and "Image.height msg \<noteq> 0"
    and "toCvCopy env msg ''bgr8'' = Inr img"
    and "\<not> isVisualize (ortAgent self)"
    and "precision_level (ortAgent self) = 2 \<and> p2_infer_action env img = Inr result \<and> pub = p2_pub
       \<or> precision_level (ortAgent self) = 3 \<and> p3_infer_action env img = Inr result \<and> pub = p3_pub"
  shows "publications (effects self') = publications (effects self) @
      [(pub, Detection_message
          (if precision_level (ortAgent self) = 3 then spec_projection_p3 result
           else spec_projection_p2 result))]"
    and "data_size result \<le> length (classIndices result)"
    and "data_size result \<le> length (EPD_EPDObjectDetection.scores result)"
    and "data_size result \<le> length (EPD_EPDObjectDetection.bboxes result)"
    and "precision_level (ortAgent self) = 3 \<Longrightarrow>
         data_size result \<le> length (EPD_EPDObjectDetection.masks result)"
  using assms(5) topic_callback_p2_structured [OF assms(1-3) _ assms(4), of result]
    topic_callback_p3_structured [OF assms(1-3) _ assms(4), of result]
  by auto

lemma spec_projection_bboxes:
  "epd_msgs_EPDObjectDetection.bboxes
     (if c then spec_projection_p3 result else spec_projection_p2 result) =
   map spec_roi (take (data_size result) (EPD_EPDObjectDetection.bboxes result))"
  by (simp add: spec_projection_p2_def spec_projection_p3_def)

lemma uint_word_of_int_32:
  "0 \<le> k \<Longrightarrow> k < 2 ^ 32 \<Longrightarrow> uint (word_of_int k :: 32 word) = k"
  by (simp add: uint_word_of_int_eq take_bit_int_eq_self)


subsection \<open>The stubbed node, evaluated\<close>

lemmas run_defs =
  topic_callback_def process_frame_def session_bootstrap_def inference_dispatch_def
  initORTSessionHandler_def isInit_def isVisualize_def setFrameDimension_def setInitBoolean_def
  getWidth_def getHeight_def publish_def RCLCPP_INFO_def RCLCPP_WARN_def toImageMsg_def
  p2_loop_from_0 p3_loop_from_0 spec_projection_p2_def spec_projection_p3_def spec_roi_def

lemmas stub_defs =
  stub_backend_def stub_p2_detection_def stub_p3_detection_def frame_def fresh_node_def
  running_node_def

lemma stub_decode:
  "toCvCopy stub_backend (frame 640 480) ''bgr8'' = Inr \<lparr>rows = 480, cols = 640, pixels = ()\<rparr>"
  by (simp add: stub_defs)

lemma stub_run_p1:
  "topic_callback stub_backend (fresh_node 1 vis) (frame 640 480) =
     (Returned,
      \<lparr>ortAgent = \<lparr>initialized = True, EPDContainer.width = 640, EPDContainer.height = 480,
                   precision_level = 1, visualize_mode = vis\<rparr>,
       effects = [Session_created 640 480,
                  Published p1_pub (Classification_message \<lparr>object_names = [''cup'', ''book'']\<rparr>),
                  Logged INFO ''[-FPS-]= %f\<newline>'']\<rparr>)"
  by (simp add: run_defs stub_defs)

lemma stub_run_p2:
  "topic_callback stub_backend (fresh_node 2 False) (frame 640 480) =
     (Returned,
      \<lparr>ortAgent = \<lparr>initialized = True, EPDContainer.width = 640, EPDContainer.height = 480,
                   precision_level = 2, visualize_mode = False\<rparr>,
       effects = [Session_created 640 480,
                  Published p2_pub (Detection_message
                    \<lparr>class_indices = [3, 7],
                     epd_msgs_EPDObjectDetection.scores = [90, 40],
                     epd_msgs_EPDObjectDetection.bboxes =
                       [\<lparr>x_offset = 10, y_offset = 20, height = 200, width = 100, do_rectify = False\<rparr>,
                        \<lparr>x_offset = 5, y_offset = 5, height = 20, width = 10, do_rectify = False\<rparr>],
                     epd_msgs_EPDObjectDetection.masks = []\<rparr>),
                  Logged INFO ''[-FPS-]= %f\<newline>'']\<rparr>)"
  by (simp add: run_defs stub_defs)

lemma stub_run_p3:
  "topic_callback stub_backend (fresh_node 3 False) (frame 640 480) =
     (Returned,
      \<lparr>ortAgent = \<lparr>initialized = True, EPDContainer.width = 640, EPDContainer.height = 480,
                   precision_level = 3, visualize_mode = False\<rparr>,
       effects = [Session_created 640 480,
                  Published p3_pub (Detection_message
                    \<lparr>class_indices = [3],
                     epd_msgs_EPDObjectDetection.scores = [90],
                     epd_msgs_EPDObjectDetection.bboxes =
                       [\<lparr>x_offset = 0, y_offset = 0, height = 32, width = 32, do_rectify = False\<rparr>],
                     epd_msgs_EPDObjectDetection.masks =
                       [\<lparr>Image.height = 32, Image.width = 32, Image.encoding = ''32FC1'',
                         Image.data = ()\<rparr>]\<rparr>),
                  Logged INFO ''[-FPS-]= %f\<newline>'']\<rparr>)"
  by (simp add: run_defs stub_defs)

lemma stub_run_visualize:
  "topic_callback stub_backend (fresh_node 2 True) (frame 640 480) =
     (Returned,
      \<lparr>ortAgent = \<lparr>initialized = True, EPDContainer.width = 640, EPDContainer.height = 480,
                   precision_level = 2, visualize_mode = True\<rparr>,
       effects = [Session_created 640 480,
                  Published visual_pub (Image_message
                    \<lparr>Image.height = 480, Image.width = 640, Image.encoding = ''bgr8'',
                     Image.data = ()\<rparr>),
                  Logged INFO ''[-FPS-]= %f\<newline>'']\<rparr>)"
  by (simp add: run_defs stub_defs)

lemma Returned_collapse: "fst r = Returned \<Longrightarrow> r = (Returned, snd r)"
  by (cases r) simp


subsection \<open>The result projector\<close>

text \<open>
  Claim C3. In the P2 and in the P3 branch with visualization off, the callback
  publishes one region per detector box, and the region made from the box
  \<open>(x\<^sub>1, y\<^sub>1, x\<^sub>2, y\<^sub>2)\<close> has \<^verbatim>\<open>x_offset\<close> \<open>x\<^sub>1\<close>, \<^verbatim>\<open>y_offset\<close> \<open>y\<^sub>1\<close>, \<^verbatim>\<open>width\<close>
  \<open>x\<^sub>2 - x\<^sub>1\<close>, \<^verbatim>\<open>height\<close> \<open>y\<^sub>2 - y\<^sub>1\<close> and \<^verbatim>\<open>do_rectify\<close> false. The fields are
  \<^verbatim>\<open>uint32\<close>: the equalities hold after the conversion of lines 190-193 for every box,
  and as equalities of numbers for every box of pixel coordinates with
  \<open>0 \<le> x\<^sub>1 \<le> x\<^sub>2 < 2\<^sup>3\<^sup>2\<close> and \<open>0 \<le> y\<^sub>1 \<le> y\<^sub>2 < 2\<^sup>3\<^sup>2\<close>.
\<close>

theorem C3_region_of_interest_fields:
  assumes "topic_callback env self msg = (Returned, self')"
    and "Image.height msg \<noteq> 0"
    and "toCvCopy env msg ''bgr8'' = Inr img"
    and "\<not> isVisualize (ortAgent self)"
    and "precision_level (ortAgent self) = 2 \<and> p2_infer_action env img = Inr result \<and> pub = p2_pub
       \<or> precision_level (ortAgent self) = 3 \<and> p3_infer_action env img = Inr result \<and> pub = p3_pub"
  shows "\<exists>out.
      publications (effects self') = publications (effects self) @ [(pub, Detection_message out)]
      \<and> length (epd_msgs_EPDObjectDetection.bboxes out) = data_size result
      \<and> (\<forall>i x1 y1 x2 y2.
           i < data_size result \<and> EPD_EPDObjectDetection.bboxes result ! i = (x1, y1, x2, y2) \<longrightarrow>
             x_offset (epd_msgs_EPDObjectDetection.bboxes out ! i) = word_of_int x1
           \<and> y_offset (epd_msgs_EPDObjectDetection.bboxes out ! i) = word_of_int y1
           \<and> RegionOfInterest.width (epd_msgs_EPDObjectDetection.bboxes out ! i) = word_of_int (x2 - x1)
           \<and> RegionOfInterest.height (epd_msgs_EPDObjectDetection.bboxes out ! i) = word_of_int (y2 - y1)
           \<and> do_rectify (epd_msgs_EPDObjectDetection.bboxes out ! i) = False
           \<and> (0 \<le> x1 \<and> x1 \<le> x2 \<and> x2 < 2 ^ 32 \<and> 0 \<le> y1 \<and> y1 \<le> y2 \<and> y2 < 2 ^ 32 \<longrightarrow>
                uint (x_offset (epd_msgs_EPDObjectDetection.bboxes out ! i)) = x1
              \<and> uint (y_offset (epd_msgs_EPDObjectDetection.bboxes out ! i)) = y1
              \<and> uint (RegionOfInterest.width (epd_msgs_EPDObjectDetection.bboxes out ! i)) = x2 - x1
              \<and> uint (RegionOfInterest.height (epd_msgs_EPDObjectDetection.bboxes out ! i)) = y2 - y1))"
proof -
  let ?out = "if precision_level (ortAgent self) = 3 then spec_projection_p3 result
           else spec_projection_p2 result"
  note s = structured_output [OF assms]
  have len: "length (epd_msgs_EPDObjectDetection.bboxes ?out) = data_size result"
    using s(4) by (simp only: spec_projection_bboxes) simp
  have nth: "epd_msgs_EPDObjectDetection.bboxes ?out ! i =
      spec_roi (EPD_EPDObjectDetection.bboxes result ! i)" if "i < data_size result" for i
    using that s(4) by (simp only: spec_projection_bboxes) simp
  have fields: "x_offset (spec_roi (x1, y1, x2, y2)) = word_of_int x1
      \<and> y_offset (spec_roi (x1, y1, x2, y2)) = word_of_int y1
      \<and> RegionOfInterest.width (spec_roi (x1, y1, x2, y2)) = word_of_int (x2 - x1)
      \<and> RegionOfInterest.height (spec_roi (x1, y1, x2, y2)) = word_of_int (y2 - y1)
      \<and> do_rectify (spec_roi (x1, y1, x2, y2)) = False" for x1 y1 x2 y2
    by (simp add: spec_roi_def)
  have numeric: "uint (word_of_int x1 :: 32 word) = x1 \<and> uint (word_of_int y1 :: 32 word) = y1
      \<and> uint (word_of_int (x2 - x1) :: 32 word) = x2 - x1
      \<and> uint (word_of_int (y2 - y1) :: 32 word) = y2 - y1"
    if "0 \<le> x1 \<and> x1 \<le> x2 \<and> x2 < 2 ^ 32 \<and> 0 \<le> y1 \<and> y1 \<le> y2 \<and> y2 < 2 ^ 32"
    for x1 y1 x2 y2 :: int
    using that by (intro conjI uint_word_of_int_32) simp_all
  show ?thesis
  proof (intro exI [of _ ?out] conjI allI impI)
    show "publications (effects self') = publications (effects self) @ [(pub, Detection_message ?out)]"
      by (rule s(1))
    show "length (epd_msgs_EPDObjectDetection.bboxes ?out) = data_size result" by (rule len)
  qed (simp_all only: nth fields, (use numeric in blast)+)
qed

text \<open>The second box of the P2 stub, \<open>(5, 5, 15, 25)\<close>, becomes the region 5, 5, 10, 20.\<close>

theorem C3_region_of_interest_fields_witness:
  "fst (topic_callback stub_backend (fresh_node 2 False) (frame 640 480)) = Returned
   \<and> Image.height (frame 640 480) \<noteq> 0
   \<and> toCvCopy stub_backend (frame 640 480) ''bgr8'' = Inr \<lparr>rows = 480, cols = 640, pixels = ()\<rparr>
   \<and> \<not> isVisualize (ortAgent (fresh_node 2 False))
   \<and> precision_level (ortAgent (fresh_node 2 False)) = 2
   \<and> p2_infer_action stub_backend \<lparr>rows = 480, cols = 640, pixels = ()\<rparr> = Inr stub_p2_detection
   \<and> EPD_EPDObjectDetection.bboxes stub_p2_detection ! 1 = (5, 5, 15, 25)
   \<and> (\<exists>out.
        publications (effects (snd (topic_callback stub_backend (fresh_node 2 False) (frame 640 480)))) =
          [(p2_pub, Detection_message out)]
        \<and> length (epd_msgs_EPDObjectDetection.bboxes out) = 2
        \<and> uint (x_offset (epd_msgs_EPDObjectDetection.bboxes out ! 1)) = 5
        \<and> uint (y_offset (epd_msgs_EPDObjectDetection.bboxes out ! 1)) = 5
        \<and> uint (RegionOfInterest.width (epd_msgs_EPDObjectDetection.bboxes out ! 1)) = 10
        \<and> uint (RegionOfInterest.height (epd_msgs_EPDObjectDetection.bboxes out ! 1)) = 20
        \<and> do_rectify (epd_msgs_EPDObjectDetection.bboxes out ! 1) = False)"
proof -
  have f: "fst (topic_callback stub_backend (fresh_node 2 False) (frame 640 480)) = Returned"
    by (simp add: stub_run_p2)
  have h: "Image.height (frame 640 480) \<noteq> 0" by (simp add: frame_def)
  have v: "\<not> isVisualize (ortAgent (fresh_node 2 False))"
    by (simp add: fresh_node_def isVisualize_def)
  have p: "precision_level (ortAgent (fresh_node 2 False)) = 2" by (simp add: fresh_node_def)
  have a: "p2_infer_action stub_backend \<lparr>rows = 480, cols = 640, pixels = ()\<rparr> = Inr stub_p2_detection"
    by (simp add: stub_backend_def)
  have b: "EPD_EPDObjectDetection.bboxes stub_p2_detection ! 1 = (5, 5, 15, 25)"
    and n: "data_size stub_p2_detection = 2"
    by (simp_all add: stub_p2_detection_def)
  have e: "effects (fresh_node 2 False) = []" by (simp add: fresh_node_def)
  from C3_region_of_interest_fields [OF Returned_collapse [OF f] h stub_decode v, of stub_p2_detection p2_pub]
    p a
  obtain out where
    o1: "publications (effects (snd (topic_callback stub_backend (fresh_node 2 False) (frame 640 480)))) =
          publications (effects (fresh_node 2 False)) @ [(p2_pub, Detection_message out)]"
    and o2: "length (epd_msgs_EPDObjectDetection.bboxes out) = data_size stub_p2_detection"
    and o3: "\<And>i x1 y1 x2 y2.
           i < data_size stub_p2_detection \<and>
           EPD_EPDObjectDetection.bboxes stub_p2_detection ! i = (x1, y1, x2, y2) \<Longrightarrow>
             do_rectify (epd_msgs_EPDObjectDetection.bboxes out ! i) = False
           \<and> (0 \<le> x1 \<and> x1 \<le> x2 \<and> x2 < 2 ^ 32 \<and> 0 \<le> y1 \<and> y1 \<le> y2 \<and> y2 < 2 ^ 32 \<longrightarrow>
                uint (x_offset (epd_msgs_EPDObjectDetection.bboxes out ! i)) = x1
              \<and> uint (y_offset (epd_msgs_EPDObjectDetection.bboxes out ! i)) = y1
              \<and> uint (RegionOfInterest.width (epd_msgs_EPDObjectDetection.bboxes out ! i)) = x2 - x1
              \<and> uint (RegionOfInterest.height (epd_msgs_EPDObjectDetection.bboxes out ! i)) = y2 - y1)"
    by blast
  from o3 [of 1 5 5 15 25] b n
  have o4: "uint (x_offset (epd_msgs_EPDObjectDetection.bboxes out ! 1)) = 5
        \<and> uint (y_offset (epd_msgs_EPDObjectDetection.bboxes out ! 1)) = 5
        \<and> uint (RegionOfInterest.width (epd_msgs_EPDObjectDetection.bboxes out ! 1)) = 10
        \<and> uint (RegionOfInterest.height (epd_msgs_EPDObjectDetection.bboxes out ! 1)) = 20
        \<and> do_rectify (epd_msgs_EPDObjectDetection.bboxes out ! 1) = False"
    by simp
  from o1 e have o1': "publications (effects (snd (topic_callback stub_backend (fresh_node 2 False) (frame 640 480)))) =
          [(p2_pub, Detection_message out)]" by simp
  from o2 n have o2': "length (epd_msgs_EPDObjectDetection.bboxes out) = 2" by simp
  show ?thesis
    using f h stub_decode v p a b o1' o2' o4 by blast
qed

lemma spec_projection_fields:
  "class_indices (if c then spec_projection_p3 result else spec_projection_p2 result) =
     take (data_size result) (classIndices result)"
  "epd_msgs_EPDObjectDetection.scores
     (if c then spec_projection_p3 result else spec_projection_p2 result) =
     take (data_size result) (EPD_EPDObjectDetection.scores result)"
  "epd_msgs_EPDObjectDetection.masks
     (if c then spec_projection_p3 result else spec_projection_p2 result) =
     (if c then map (toImageMsg ''32FC1'')
        (take (data_size result) (EPD_EPDObjectDetection.masks result)) else [])"
  by (simp_all add: spec_projection_p2_def spec_projection_p3_def)

lemma frame_height: "Image.height (frame 640 480) \<noteq> 0"
  by (simp add: frame_def)

lemma structured_frame_returns:
  assumes "Image.height msg \<noteq> 0"
    and "toCvCopy env msg ''bgr8'' = Inr img"
    and "\<not> isVisualize (ortAgent self)"
    and "precision_level (ortAgent self) = 2 \<and> p2_infer_action env img = Inr result
       \<or> precision_level (ortAgent self) = 3 \<and> p3_infer_action env img = Inr result"
    and "fst (session_bootstrap env self img) = Returned"
    and "data_size result \<le> length (classIndices result)"
    and "data_size result \<le> length (EPD_EPDObjectDetection.scores result)"
    and "data_size result \<le> length (EPD_EPDObjectDetection.bboxes result)"
    and "precision_level (ortAgent self) = 3 \<longrightarrow>
         data_size result \<le> length (EPD_EPDObjectDetection.masks result)"
  shows "fst (topic_callback env self msg) = Returned"
proof -
  obtain s1 where b: "session_bootstrap env self img = (Returned, s1)"
    using assms(5) by (cases "session_bootstrap env self img") simp
  note k = session_bootstrap_keeps(1,2) [OF b]
  have "fst (inference_dispatch env s1 img) = Returned"
    using assms(3,4,6-9) k
    by (auto simp: inference_dispatch_def isVisualize_def p2_loop_from_0 p3_loop_from_0)
  then obtain s2 where "inference_dispatch env s1 img = (Returned, s2)"
    by (cases "inference_dispatch env s1 img") simp
  with b assms(1,2) show ?thesis
    by (simp add: topic_callback_def process_frame_def)
qed

text \<open>
  Claim C4. For every P2 or P3 frame with visualization off whose detector output has
  \<^verbatim>\<open>data_size\<close> N, the published message has exactly N class indices, N scores and N
  regions; for P3 it also has exactly N masks (and for P2 none). The message is
  published, the callback returning, exactly when the frame passes the bootstrap and no
  vector of the detector that the loop reads is shorter than N.
\<close>

theorem C4_output_lengths:
  assumes "Image.height msg \<noteq> 0"
    and "toCvCopy env msg ''bgr8'' = Inr img"
    and "\<not> isVisualize (ortAgent self)"
    and "precision_level (ortAgent self) = 2 \<and> p2_infer_action env img = Inr result \<and> pub = p2_pub
       \<or> precision_level (ortAgent self) = 3 \<and> p3_infer_action env img = Inr result \<and> pub = p3_pub"
  shows "(fst (topic_callback env self msg) = Returned \<longrightarrow>
      (\<exists>out.
        publications (effects (snd (topic_callback env self msg))) =
          publications (effects self) @ [(pub, Detection_message out)]
        \<and> length (class_indices out) = data_size result
        \<and> length (epd_msgs_EPDObjectDetection.scores out) = data_size result
        \<and> length (epd_msgs_EPDObjectDetection.bboxes out) = data_size result
        \<and> (precision_level (ortAgent self) = 3 \<longrightarrow>
             length (epd_msgs_EPDObjectDetection.masks out) = data_size result)
        \<and> (precision_level (ortAgent self) = 2 \<longrightarrow> epd_msgs_EPDObjectDetection.masks out = [])))
    \<and> (fst (topic_callback env self msg) = Returned \<longleftrightarrow>
          fst (session_bootstrap env self img) = Returned
        \<and> data_size result \<le> length (classIndices result)
        \<and> data_size result \<le> length (EPD_EPDObjectDetection.scores result)
        \<and> data_size result \<le> length (EPD_EPDObjectDetection.bboxes result)
        \<and> (precision_level (ortAgent self) = 3 \<longrightarrow>
             data_size result \<le> length (EPD_EPDObjectDetection.masks result)))"
proof -
  let ?out = "if precision_level (ortAgent self) = 3 then spec_projection_p3 result
           else spec_projection_p2 result"
  let ?self' = "snd (topic_callback env self msg)"
  have published: "\<exists>out.
        publications (effects ?self') = publications (effects self) @ [(pub, Detection_message out)]
        \<and> length (class_indices out) = data_size result
        \<and> length (epd_msgs_EPDObjectDetection.scores out) = data_size result
        \<and> length (epd_msgs_EPDObjectDetection.bboxes out) = data_size result
        \<and> (precision_level (ortAgent self) = 3 \<longrightarrow>
             length (epd_msgs_EPDObjectDetection.masks out) = data_size result)
        \<and> (precision_level (ortAgent self) = 2 \<longrightarrow> epd_msgs_EPDObjectDetection.masks out = [])"
    and long_enough: "data_size result \<le> length (classIndices result)
        \<and> data_size result \<le> length (EPD_EPDObjectDetection.scores result)
        \<and> data_size result \<le> length (EPD_EPDObjectDetection.bboxes result)
        \<and> (precision_level (ortAgent self) = 3 \<longrightarrow>
             data_size result \<le> length (EPD_EPDObjectDetection.masks result))"
    and bootstrapped: "fst (session_bootstrap env self img) = Returned"
    if r: "fst (topic_callback env self msg) = Returned"
  proof -
    note s = structured_output [OF Returned_collapse [OF r] assms]
    show "\<exists>out.
        publications (effects ?self') = publications (effects self) @ [(pub, Detection_message out)]
        \<and> length (class_indices out) = data_size result
        \<and> length (epd_msgs_EPDObjectDetection.scores out) = data_size result
        \<and> length (epd_msgs_EPDObjectDetection.bboxes out) = data_size result
        \<and> (precision_level (ortAgent self) = 3 \<longrightarrow>
             length (epd_msgs_EPDObjectDetection.masks out) = data_size result)
        \<and> (precision_level (ortAgent self) = 2 \<longrightarrow> epd_msgs_EPDObjectDetection.masks out = [])"
    proof (intro exI [of _ ?out] conjI impI)
      show "publications (effects ?self') = publications (effects self) @ [(pub, Detection_message ?out)]"
        by (rule s(1))
      show "length (class_indices ?out) = data_size result"
        using s(2) by (simp only: spec_projection_fields) simp
      show "length (epd_msgs_EPDObjectDetection.scores ?out) = data_size result"
        using s(3) by (simp only: spec_projection_fields) simp
      show "length (epd_msgs_EPDObjectDetection.bboxes ?out) = data_size result"
        using s(4) by (simp only: spec_projection_bboxes) simp
      show "length (epd_msgs_EPDObjectDetection.masks ?out) = data_size result"
        if "precision_level (ortAgent self) = 3"
        using s(5) [OF that] that by (simp only: spec_projection_fields) simp
      show "epd_msgs_EPDObjectDetection.masks ?out = []"
        if "precision_level (ortAgent self) = 2"
        using that by (simp only: spec_projection_fields) simp
    qed
    show "data_size result \<le> length (classIndices result)
        \<and> data_size result \<le> length (EPD_EPDObjectDetection.scores result)
        \<and> data_size result \<le> length (EPD_EPDObjectDetection.bboxes result)
        \<and> (precision_level (ortAgent self) = 3 \<longrightarrow>
             data_size result \<le> length (EPD_EPDObjectDetection.masks result))"
      using s(2-5) by blast
    from Returned_collapse [OF r] assms(1) obtain img' s1 where
      "toCvCopy env msg ''bgr8'' = Inr img'" "session_bootstrap env self img' = (Returned, s1)"
      by (rule topic_callback_Returned)
    with assms(2) show "fst (session_bootstrap env self img) = Returned" by simp
  qed
  have returns: "fst (topic_callback env self msg) = Returned"
    if "fst (session_bootstrap env self img) = Returned
        \<and> data_size result \<le> length (classIndices result)
        \<and> data_size result \<le> length (EPD_EPDObjectDetection.scores result)
        \<and> data_size result \<le> length (EPD_EPDObjectDetection.bboxes result)
        \<and> (precision_level (ortAgent self) = 3 \<longrightarrow>
             data_size result \<le> length (EPD_EPDObjectDetection.masks result))"
    using that assms(4) by (intro structured_frame_returns [OF assms(1-3), of result]) blast+
  from published long_enough bootstrapped returns show ?thesis by blast
qed

text \<open>The P3 stub has one item; the published message has one entry in each sequence.\<close>

theorem C4_output_lengths_witness:
  "fst (topic_callback stub_backend (fresh_node 3 False) (frame 640 480)) = Returned
   \<and> Image.height (frame 640 480) \<noteq> 0
   \<and> toCvCopy stub_backend (frame 640 480) ''bgr8'' = Inr \<lparr>rows = 480, cols = 640, pixels = ()\<rparr>
   \<and> \<not> isVisualize (ortAgent (fresh_node 3 False))
   \<and> precision_level (ortAgent (fresh_node 3 False)) = 3
   \<and> p3_infer_action stub_backend \<lparr>rows = 480, cols = 640, pixels = ()\<rparr> = Inr stub_p3_detection
   \<and> data_size stub_p3_detection = 1
   \<and> (\<exists>out.
        publications (effects (snd (topic_callback stub_backend (fresh_node 3 False) (frame 640 480)))) =
          [(p3_pub, Detection_message out)]
        \<and> length (class_indices out) = 1
        \<and> length (epd_msgs_EPDObjectDetection.scores out) = 1
        \<and> length (epd_msgs_EPDObjectDetection.bboxes out) = 1
        \<and> length (epd_msgs_EPDObjectDetection.masks out) = 1)"
proof -
  have f: "fst (topic_callback stub_backend (fresh_node 3 False) (frame 640 480)) = Returned"
    by (simp add: stub_run_p3)
  have v: "\<not> isVisualize (ortAgent (fresh_node 3 False))"
    by (simp add: fresh_node_def isVisualize_def)
  have p: "precision_level (ortAgent (fresh_node 3 False)) = 3" by (simp add: fresh_node_def)
  have a: "p3_infer_action stub_backend \<lparr>rows = 480, cols = 640, pixels = ()\<rparr> = Inr stub_p3_detection"
    by (simp add: stub_backend_def)
  have n: "data_size stub_p3_detection = 1" by (simp add: stub_p3_detection_def)
  have e: "publications (effects (fresh_node 3 False)) = []" by (simp add: fresh_node_def)
  have "\<exists>out.
        publications (effects (snd (topic_callback stub_backend (fresh_node 3 False) (frame 640 480)))) =
          [(p3_pub, Detection_message out)]
        \<and> length (class_indices out) = 1
        \<and> length (epd_msgs_EPDObjectDetection.scores out) = 1
        \<and> length (epd_msgs_EPDObjectDetection.bboxes out) = 1
        \<and> length (epd_msgs_EPDObjectDetection.masks out) = 1"
    using C4_output_lengths [OF frame_height stub_decode v, of stub_p3_detection p3_pub,
        THEN conjunct1] f p a
    by (simp only: n e append_Nil) auto
  with f frame_height stub_decode v p a n show ?thesis by blast
qed

text \<open>
  Claim C5. For every P2 or P3 frame with visualization off, the published sequences
  are the detector's first N entries in the detector's order: for every \<open>i\<close> below N the
  \<open>i\<close>-th class index and score are the detector's \<open>i\<close>-th, the \<open>i\<close>-th region is the
  region of the \<open>i\<close>-th box and (P3) the \<open>i\<close>-th mask is the \<open>i\<close>-th mask wrapped as an
  image. Nothing is filtered out, thresholded or moved.
\<close>

theorem C5_order_preserved:
  assumes "topic_callback env self msg = (Returned, self')"
    and "Image.height msg \<noteq> 0"
    and "toCvCopy env msg ''bgr8'' = Inr img"
    and "\<not> isVisualize (ortAgent self)"
    and "precision_level (ortAgent self) = 2 \<and> p2_infer_action env img = Inr result \<and> pub = p2_pub
       \<or> precision_level (ortAgent self) = 3 \<and> p3_infer_action env img = Inr result \<and> pub = p3_pub"
  shows "\<exists>out.
      publications (effects self') = publications (effects self) @ [(pub, Detection_message out)]
      \<and> class_indices out = take (data_size result) (classIndices result)
      \<and> epd_msgs_EPDObjectDetection.scores out =
          take (data_size result) (EPD_EPDObjectDetection.scores result)
      \<and> epd_msgs_EPDObjectDetection.bboxes out =
          map spec_roi (take (data_size result) (EPD_EPDObjectDetection.bboxes result))
      \<and> (precision_level (ortAgent self) = 3 \<longrightarrow>
           epd_msgs_EPDObjectDetection.masks out =
             map (toImageMsg ''32FC1'')
               (take (data_size result) (EPD_EPDObjectDetection.masks result)))
      \<and> (\<forall>i. i < data_size result \<longrightarrow>
             class_indices out ! i = classIndices result ! i
           \<and> epd_msgs_EPDObjectDetection.scores out ! i = EPD_EPDObjectDetection.scores result ! i
           \<and> epd_msgs_EPDObjectDetection.bboxes out ! i =
               spec_roi (EPD_EPDObjectDetection.bboxes result ! i)
           \<and> (precision_level (ortAgent self) = 3 \<longrightarrow>
                epd_msgs_EPDObjectDetection.masks out ! i =
                  toImageMsg ''32FC1'' (EPD_EPDObjectDetection.masks result ! i)))"
proof -
  let ?out = "if precision_level (ortAgent self) = 3 then spec_projection_p3 result
           else spec_projection_p2 result"
  note s = structured_output [OF assms]
  show ?thesis
  proof (intro exI [of _ ?out] conjI impI allI)
    show "publications (effects self') = publications (effects self) @ [(pub, Detection_message ?out)]"
      by (rule s(1))
    show "class_indices ?out = take (data_size result) (classIndices result)"
      by (simp only: spec_projection_fields)
    show "epd_msgs_EPDObjectDetection.scores ?out =
        take (data_size result) (EPD_EPDObjectDetection.scores result)"
      by (simp only: spec_projection_fields)
    show "epd_msgs_EPDObjectDetection.bboxes ?out =
        map spec_roi (take (data_size result) (EPD_EPDObjectDetection.bboxes result))"
      by (simp only: spec_projection_bboxes)
    show "epd_msgs_EPDObjectDetection.masks ?out =
        map (toImageMsg ''32FC1'') (take (data_size result) (EPD_EPDObjectDetection.masks result))"
      if "precision_level (ortAgent self) = 3"
      using that by (simp only: spec_projection_fields) simp
  next
    fix i assume i: "i < data_size result"
    show "class_indices ?out ! i = classIndices result ! i"
      using i by (simp only: spec_projection_fields) simp
    show "epd_msgs_EPDObjectDetection.scores ?out ! i = EPD_EPDObjectDetection.scores result ! i"
      using i by (simp only: spec_projection_fields) simp
    show "epd_msgs_EPDObjectDetection.bboxes ?out ! i =
        spec_roi (EPD_EPDObjectDetection.bboxes result ! i)"
      using i s(4) by (simp only: spec_projection_bboxes) simp
    show "epd_msgs_EPDObjectDetection.masks ?out ! i =
        toImageMsg ''32FC1'' (EPD_EPDObjectDetection.masks result ! i)"
      if "precision_level (ortAgent self) = 3"
      using i s(5) [OF that] that by (simp only: spec_projection_fields) simp
  qed
qed

text \<open>The P2 stub: indices 3 and 7, scores 90 and 40 and the two regions, in that order.\<close>

theorem C5_order_preserved_witness:
  "fst (topic_callback stub_backend (fresh_node 2 False) (frame 640 480)) = Returned
   \<and> Image.height (frame 640 480) \<noteq> 0
   \<and> toCvCopy stub_backend (frame 640 480) ''bgr8'' = Inr \<lparr>rows = 480, cols = 640, pixels = ()\<rparr>
   \<and> \<not> isVisualize (ortAgent (fresh_node 2 False))
   \<and> precision_level (ortAgent (fresh_node 2 False)) = 2
   \<and> p2_infer_action stub_backend \<lparr>rows = 480, cols = 640, pixels = ()\<rparr> = Inr stub_p2_detection
   \<and> (\<exists>out.
        publications (effects (snd (topic_callback stub_backend (fresh_node 2 False) (frame 640 480)))) =
          [(p2_pub, Detection_message out)]
        \<and> class_indices out = [3, 7]
        \<and> epd_msgs_EPDObjectDetection.scores out = [90, 40]
        \<and> epd_msgs_EPDObjectDetection.bboxes out =
            [\<lparr>x_offset = 10, y_offset = 20, height = 200, width = 100, do_rectify = False\<rparr>,
             \<lparr>x_offset = 5, y_offset = 5, height = 20, width = 10, do_rectify = False\<rparr>])"
proof -
  have f: "fst (topic_callback stub_backend (fresh_node 2 False) (frame 640 480)) = Returned"
    by (simp add: stub_run_p2)
  have v: "\<not> isVisualize (ortAgent (fresh_node 2 False))"
    by (simp add: fresh_node_def isVisualize_def)
  have p: "precision_level (ortAgent (fresh_node 2 False)) = 2" by (simp add: fresh_node_def)
  have a: "p2_infer_action stub_backend \<lparr>rows = 480, cols = 640, pixels = ()\<rparr> = Inr stub_p2_detection"
    by (simp add: stub_backend_def)
  have e: "publications (effects (fresh_node 2 False)) = []" by (simp add: fresh_node_def)
  have t: "take (data_size stub_p2_detection) (classIndices stub_p2_detection) = [3, 7]"
    "take (data_size stub_p2_detection) (EPD_EPDObjectDetection.scores stub_p2_detection) = [90, 40]"
    "map spec_roi (take (data_size stub_p2_detection)
        (EPD_EPDObjectDetection.bboxes stub_p2_detection)) =
       [\<lparr>x_offset = 10, y_offset = 20, height = 200, width = 100, do_rectify = False\<rparr>,
        \<lparr>x_offset = 5, y_offset = 5, height = 20, width = 10, do_rectify = False\<rparr>]"
    by (simp_all add: stub_p2_detection_def spec_roi_def)
  have "\<exists>out.
        publications (effects (snd (topic_callback stub_backend (fresh_node 2 False) (frame 640 480)))) =
          [(p2_pub, Detection_message out)]
        \<and> class_indices out = [3, 7]
        \<and> epd_msgs_EPDObjectDetection.scores out = [90, 40]
        \<and> epd_msgs_EPDObjectDetection.bboxes out =
            [\<lparr>x_offset = 10, y_offset = 20, height = 200, width = 100, do_rectify = False\<rparr>,
             \<lparr>x_offset = 5, y_offset = 5, height = 20, width = 10, do_rectify = False\<rparr>]"
    using C5_order_preserved [OF Returned_collapse [OF f] frame_height stub_decode v,
        of stub_p2_detection p2_pub] p a
    by (simp only: t e append_Nil) auto
  with f frame_height stub_decode v p a show ?thesis by blast
qed

subsection \<open>The dispatch\<close>

text \<open>
  Claim C6. A processed frame is a message of non-zero height whose callback returns.
  With the precision level in 1, 2, 3, the callback publishes exactly one message, and
  the publisher is fixed by the level and the flag: at level 1 the P1 publisher,
  whatever the flag; at level 2 or 3 the visualization publisher when the flag is set,
  and the level's own publisher when it is not.
\<close>

theorem C6_exactly_one_topic:
  assumes "topic_callback env self msg = (Returned, self')"
    and "Image.height msg \<noteq> 0"
    and "precision_level (ortAgent self) \<in> {1, 2, 3}"
  shows "\<exists>m. publications (effects self') = publications (effects self) @
      [(if precision_level (ortAgent self) = 1 then p1_pub
        else if isVisualize (ortAgent self) then visual_pub
        else if precision_level (ortAgent self) = 2 then p2_pub
        else p3_pub, m)]"
proof -
  from assms(1,2) obtain img s1 s2 where d: "toCvCopy env msg ''bgr8'' = Inr img"
    and b: "session_bootstrap env self img = (Returned, s1)"
    and i: "inference_dispatch env s1 img = (Returned, s2)"
    and s: "self' = RCLCPP_INFO s2 ''[-FPS-]= %f\<newline>''"
    by (rule topic_callback_Returned)
  note k = session_bootstrap_keeps [OF b]
  have "\<exists>m. publications (effects s2) = publications (effects s1) @
      [(if precision_level (ortAgent s1) = 1 then p1_pub
        else if isVisualize (ortAgent s1) then visual_pub
        else if precision_level (ortAgent s1) = 2 then p2_pub
        else p3_pub, m)]"
    using i assms(3) k(1)
    by (auto simp: inference_dispatch_def split: if_splits sum.splits)
  moreover have "precision_level (ortAgent s1) = precision_level (ortAgent self)"
    and "isVisualize (ortAgent s1) = isVisualize (ortAgent self)"
    and "publications (effects s1) = publications (effects self)"
    and "publications (effects self') = publications (effects s2)"
    using k s by (simp_all add: isVisualize_def)
  ultimately show ?thesis by (simp only:)
qed

text \<open>
  With the flag set, the stubbed P2 node publishes on the visualization topic only and
  the stubbed P1 node on the P1 topic only.
\<close>

theorem C6_exactly_one_topic_witness:
  "fst (topic_callback stub_backend (fresh_node 2 True) (frame 640 480)) = Returned
   \<and> Image.height (frame 640 480) \<noteq> 0
   \<and> precision_level (ortAgent (fresh_node 2 True)) \<in> {1, 2, 3}
   \<and> isVisualize (ortAgent (fresh_node 2 True))
   \<and> (\<exists>m. publications (effects (snd (topic_callback stub_backend (fresh_node 2 True) (frame 640 480)))) =
          [(visual_pub, m)])
   \<and> fst (topic_callback stub_backend (fresh_node 1 True) (frame 640 480)) = Returned
   \<and> precision_level (ortAgent (fresh_node 1 True)) \<in> {1, 2, 3}
   \<and> isVisualize (ortAgent (fresh_node 1 True))
   \<and> (\<exists>m. publications (effects (snd (topic_callback stub_backend (fresh_node 1 True) (frame 640 480)))) =
          [(p1_pub, m)])"
proof -
  have f2: "fst (topic_callback stub_backend (fresh_node 2 True) (frame 640 480)) = Returned"
    by (simp add: stub_run_visualize)
  have f1: "fst (topic_callback stub_backend (fresh_node 1 True) (frame 640 480)) = Returned"
    by (simp add: stub_run_p1)
  have p2: "precision_level (ortAgent (fresh_node 2 True)) \<in> {1, 2, 3}"
    and p1: "precision_level (ortAgent (fresh_node 1 True)) \<in> {1, 2, 3}"
    by (simp_all add: fresh_node_def)
  have v2: "isVisualize (ortAgent (fresh_node 2 True))"
    and v1: "isVisualize (ortAgent (fresh_node 1 True))"
    by (simp_all add: fresh_node_def isVisualize_def)
  have e: "publications (effects (fresh_node 2 True)) = []"
    "publications (effects (fresh_node 1 True)) = []"
    "precision_level (ortAgent (fresh_node 2 True)) = 2"
    "precision_level (ortAgent (fresh_node 1 True)) = 1"
    by (simp_all add: fresh_node_def)
  have r2: "\<exists>m. publications (effects (snd (topic_callback stub_backend (fresh_node 2 True) (frame 640 480)))) =
          [(visual_pub, m)]"
    using C6_exactly_one_topic [OF Returned_collapse [OF f2] frame_height p2] v2
    by (simp add: e)
  have r1: "\<exists>m. publications (effects (snd (topic_callback stub_backend (fresh_node 1 True) (frame 640 480)))) =
          [(p1_pub, m)]"
    using C6_exactly_one_topic [OF Returned_collapse [OF f1] frame_height p1]
    by (simp add: e)
  show ?thesis
    using f2 frame_height p2 v2 r2 f1 p1 v1 r1 by blast
qed

subsection \<open>The session is created once\<close>

text \<open>
  The dispatch changes neither the container nor the number of sessions, and a node
  that is initialized keeps its container through every callback and every run. The
  first frame of a node that is not initialized stores the size, creates one session
  and sets the flag, whatever the dispatch does afterwards.
\<close>

lemma inference_dispatch_keeps:
  "ortAgent (snd (inference_dispatch env self img)) = ortAgent self"
  "sessions_created (effects (snd (inference_dispatch env self img))) =
     sessions_created (effects self)"
  by (simp_all add: inference_dispatch_def publish_def sessions_created_append
      split: sum.splits)

lemma process_frame_initialized:
  assumes "isInit (ortAgent self)"
  shows "ortAgent (snd (process_frame env self img)) = ortAgent self"
    and "sessions_created (effects (snd (process_frame env self img))) =
      sessions_created (effects self)"
  using assms inference_dispatch_keeps [of env self img]
  by (auto simp: process_frame_def session_bootstrap_def RCLCPP_INFO_def
      sessions_created_append split: prod.splits completion.splits)

lemma topic_callback_initialized:
  assumes "isInit (ortAgent self)"
  shows "ortAgent (snd (topic_callback env self msg)) = ortAgent self"
    and "sessions_created (effects (snd (topic_callback env self msg))) =
      sessions_created (effects self)"
  using process_frame_initialized [OF assms]
  by (simp_all add: topic_callback_def RCLCPP_WARN_def sessions_created_append split: sum.splits)

lemma run_frames_initialized:
  assumes "isInit (ortAgent self)"
  shows "ortAgent (snd (run_frames env self msgs)) = ortAgent self
    \<and> sessions_created (effects (snd (run_frames env self msgs))) =
      sessions_created (effects self)"
  using assms
proof (induction msgs arbitrary: self)
  case Nil
  show ?case by simp
next
  case (Cons msg msgs)
  obtain c s where r: "topic_callback env self msg = (c, s)"
    by (cases "topic_callback env self msg")
  from topic_callback_initialized [OF Cons.prems, of env msg] r
  have k: "ortAgent s = ortAgent self"
    "sessions_created (effects s) = sessions_created (effects self)" by simp_all
  show ?case
  proof (cases c)
    case Returned
    with r k Cons.IH [of s] Cons.prems show ?thesis by simp
  next
    case (Thrown e)
    with r k show ?thesis by simp
  qed
qed

lemma first_frame_bootstrap:
  assumes "\<not> isInit (ortAgent self)"
    and "Image.height msg \<noteq> 0"
    and "toCvCopy env msg ''bgr8'' = Inr img"
    and "load_model env (setFrameDimension (ortAgent self) (cols img) (rows img)) = None"
  shows "ortAgent (snd (topic_callback env self msg)) =
      setInitBoolean (setFrameDimension (ortAgent self) (cols img) (rows img)) True"
    and "sessions_created (effects (snd (topic_callback env self msg))) =
      Suc (sessions_created (effects self))"
proof -
  let ?s1 = "self\<lparr>ortAgent := setInitBoolean (setFrameDimension (ortAgent self) (cols img) (rows img)) True,
      effects := effects self @ [Session_created (cols img) (rows img)]\<rparr>"
  have b: "session_bootstrap env self img = (Returned, ?s1)"
    using assms(1,4)
    by (simp add: session_bootstrap_def initORTSessionHandler_def getWidth_def getHeight_def
        setFrameDimension_def)
  have t: "snd (topic_callback env self msg) =
      (case inference_dispatch env ?s1 img of
         (Thrown e, s) \<Rightarrow> s
       | (Returned, s) \<Rightarrow> RCLCPP_INFO s ''[-FPS-]= %f\<newline>'')"
    using assms(2,3) b
    by (simp add: topic_callback_def process_frame_def split: prod.splits completion.splits)
  show "ortAgent (snd (topic_callback env self msg)) =
      setInitBoolean (setFrameDimension (ortAgent self) (cols img) (rows img)) True"
    using inference_dispatch_keeps(1) [of env ?s1 img] unfolding t
    by (auto simp: RCLCPP_INFO_def split: prod.splits completion.splits)
  show "sessions_created (effects (snd (topic_callback env self msg))) =
      Suc (sessions_created (effects self))"
    using inference_dispatch_keeps(2) [of env ?s1 img] unfolding t
    by (auto simp: RCLCPP_INFO_def sessions_created_append split: prod.splits completion.splits)
qed

lemma returned_frame_initialized:
  assumes "Image.height msg \<noteq> 0"
    and "fst (topic_callback env self msg) = Returned"
  shows "isInit (ortAgent (snd (topic_callback env self msg)))"
proof -
  from assms(2) have r: "topic_callback env self msg = (Returned, snd (topic_callback env self msg))"
    by (rule Returned_collapse)
  from r assms(1) obtain img s1 s2 where d: "toCvCopy env msg ''bgr8'' = Inr img"
    and b: "session_bootstrap env self img = (Returned, s1)"
    and i: "inference_dispatch env s1 img = (Returned, s2)"
    and s: "snd (topic_callback env self msg) = RCLCPP_INFO s2 ''[-FPS-]= %f\<newline>''"
    by (rule topic_callback_Returned)
  from b have "isInit (ortAgent s1)"
    by (auto simp: session_bootstrap_def initORTSessionHandler_def setInitBoolean_def isInit_def
        split: if_splits option.splits)
  moreover have "ortAgent s2 = ortAgent s1"
    using inference_dispatch_keeps(1) [of env s1 img] i by simp
  ultimately show ?thesis using s by (simp add: RCLCPP_INFO_def)
qed

lemma state_callback_keeps: "ortAgent (snd (state_callback self ctl)) = ortAgent self"
  by (simp add: state_callback_def rclcpp_shutdown_def RCLCPP_WARN_def Let_def)

text \<open>
  Claim C7. Started on a node that is not initialized, a run of K (at least one) copies
  of a frame that decodes and whose session loads creates exactly one session, and
  creates it on the first copy; afterwards the node is initialized with the frame's
  size. Generally: after a callback that returns on a message of non-zero height the
  node is initialized, and an initialized node stays initialized through every frame
  callback, every run and every control message.
\<close>

theorem C7_bootstrap_once:
  assumes "\<not> isInit (ortAgent self)"
    and "Image.height msg \<noteq> 0"
    and "toCvCopy env msg ''bgr8'' = Inr img"
    and "load_model env (setFrameDimension (ortAgent self) (cols img) (rows img)) = None"
    and "0 < K"
  shows "sessions_created (effects (snd (topic_callback env self msg))) =
        Suc (sessions_created (effects self))
    \<and> sessions_created (effects (snd (run_frames env self (replicate K msg)))) =
        Suc (sessions_created (effects self))
    \<and> isInit (ortAgent (snd (run_frames env self (replicate K msg))))
    \<and> getWidth (ortAgent (snd (run_frames env self (replicate K msg)))) = cols img
    \<and> getHeight (ortAgent (snd (run_frames env self (replicate K msg)))) = rows img
    \<and> (Image.height msg' \<noteq> 0 \<and> fst (topic_callback env node msg') = Returned \<longrightarrow>
         isInit (ortAgent (snd (topic_callback env node msg'))))
    \<and> (isInit (ortAgent node) \<longrightarrow>
         isInit (ortAgent (snd (topic_callback env node msg')))
       \<and> isInit (ortAgent (snd (run_frames env node msgs)))
       \<and> isInit (ortAgent (snd (state_callback node ctl))))"
proof -
  let ?a = "setInitBoolean (setFrameDimension (ortAgent self) (cols img) (rows img)) True"
  let ?first = "topic_callback env self msg"
  note f = first_frame_bootstrap [OF assms(1-4)]
  have a: "isInit ?a" "getWidth ?a = cols img" "getHeight ?a = rows img"
    by (simp_all add: isInit_def getWidth_def getHeight_def setInitBoolean_def setFrameDimension_def)
  from assms(5) obtain k where K: "K = Suc k" by (cases K) auto
  have run: "ortAgent (snd (run_frames env self (replicate K msg))) = ?a
    \<and> sessions_created (effects (snd (run_frames env self (replicate K msg)))) =
        Suc (sessions_created (effects self))"
  proof -
    obtain c s where r: "?first = (c, s)" by (cases ?first)
    show ?thesis
    proof (cases c)
      case Returned
      have i: "isInit (ortAgent s)" using f(1) a(1) r by simp
      have "run_frames env self (replicate K msg) = run_frames env s (replicate k msg)"
        unfolding K using r Returned by simp
      with run_frames_initialized [OF i, of env "replicate k msg"] f r show ?thesis by simp
    next
      case (Thrown e)
      have "run_frames env self (replicate K msg) = (Thrown e, s)"
        unfolding K using r Thrown by simp
      with f r show ?thesis by simp
    qed
  qed
  have stays: "isInit (ortAgent (snd (topic_callback env node msg')))
       \<and> isInit (ortAgent (snd (run_frames env node msgs)))
       \<and> isInit (ortAgent (snd (state_callback node ctl)))" if "isInit (ortAgent node)"
    using that topic_callback_initialized(1) [OF that, of env msg']
      run_frames_initialized [OF that, of env msgs] state_callback_keeps [of node ctl]
    by simp
  show ?thesis
    using f(2) run a returned_frame_initialized [of msg' env node] stays by simp
qed

text \<open>Three copies of a 640 by 480 frame on the fresh P1 stub: one session, 640 by 480.\<close>

theorem C7_bootstrap_once_witness:
  "\<not> isInit (ortAgent (fresh_node 1 False))
   \<and> Image.height (frame 640 480) \<noteq> 0
   \<and> toCvCopy stub_backend (frame 640 480) ''bgr8'' = Inr \<lparr>rows = 480, cols = 640, pixels = ()\<rparr>
   \<and> load_model stub_backend (setFrameDimension (ortAgent (fresh_node 1 False)) 640 480) = None
   \<and> (0 :: nat) < 3
   \<and> sessions_created (effects (fresh_node 1 False)) = 0
   \<and> sessions_created
        (effects (snd (run_frames stub_backend (fresh_node 1 False) (replicate 3 (frame 640 480))))) = 1
   \<and> isInit (ortAgent (snd (run_frames stub_backend (fresh_node 1 False) (replicate 3 (frame 640 480)))))
   \<and> getWidth (ortAgent (snd (run_frames stub_backend (fresh_node 1 False) (replicate 3 (frame 640 480))))) = 640
   \<and> getHeight (ortAgent (snd (run_frames stub_backend (fresh_node 1 False) (replicate 3 (frame 640 480))))) = 480"
proof -
  have i: "\<not> isInit (ortAgent (fresh_node 1 False))"
    by (simp add: fresh_node_def isInit_def)
  have l: "load_model stub_backend
      (setFrameDimension (ortAgent (fresh_node 1 False))
        (cols \<lparr>rows = 480, cols = 640, pixels = ()\<rparr>) (rows \<lparr>rows = 480, cols = 640, pixels = ()\<rparr>)) = None"
    by (simp add: stub_backend_def)
  have k: "(0 :: nat) < 3" by simp
  have z: "sessions_created (effects (fresh_node 1 False)) = 0" by (simp add: fresh_node_def)
  show ?thesis
    using C7_bootstrap_once [OF i frame_height stub_decode l k,
        of "frame 640 480" "fresh_node 1 False" "[]" "\<lparr>std_msgs_String.data = ''pause''\<rparr>"]
      i frame_height stub_decode l z
    by simp
qed

subsection \<open>The control plane\<close>

lemma c_str_no_nul: "CHR 0x00 \<notin> set s \<Longrightarrow> c_str s = s"
  unfolding c_str_def by (rule takeWhile_eq_all_conv [THEN iffD2]) auto

text \<open>
  Claim C8, as amended. The claim says: a payload equal to \<^verbatim>\<open>shutdown\<close> shuts the node
  down, and any other payload gives a warning and no change. The handler compares the
  payload's C string (line 116), so what holds is: if the payload up to its first NUL
  byte equals \<^verbatim>\<open>shutdown\<close>, the node requests shutdown; otherwise it logs the warning
  \<^verbatim>\<open>Invalid state requested.\<close> and does nothing else. The container is untouched either
  way. For a payload without a NUL byte this is the claim as stated.
\<close>

theorem C8_state_directive:
  "(c_str (std_msgs_String.data msg) = ''shutdown'' \<longrightarrow>
      state_callback self msg = (Returned, self\<lparr>effects := effects self @ [Shutdown_requested]\<rparr>))
   \<and> (c_str (std_msgs_String.data msg) \<noteq> ''shutdown'' \<longrightarrow>
      state_callback self msg =
        (Returned, self\<lparr>effects := effects self @ [Logged WARN ''Invalid state requested.'']\<rparr>))
   \<and> ortAgent (snd (state_callback self msg)) = ortAgent self
   \<and> (CHR 0x00 \<notin> set (std_msgs_String.data msg) \<longrightarrow>
        c_str (std_msgs_String.data msg) = std_msgs_String.data msg)
   \<and> (std_msgs_String.data msg = ''shutdown'' \<longrightarrow>
        state_callback self msg = (Returned, self\<lparr>effects := effects self @ [Shutdown_requested]\<rparr>))
   \<and> (std_msgs_String.data msg \<noteq> ''shutdown'' \<and> CHR 0x00 \<notin> set (std_msgs_String.data msg) \<longrightarrow>
        state_callback self msg =
          (Returned, self\<lparr>effects := effects self @ [Logged WARN ''Invalid state requested.'']\<rparr>))"
proof -
  have s: "c_str ''shutdown'' = ''shutdown''" by (simp add: c_str_def)
  show ?thesis
    using c_str_no_nul [of "std_msgs_String.data msg"] s
    by (auto simp: state_callback_def rclcpp_shutdown_def RCLCPP_WARN_def Let_def)
qed

text \<open>The payload \<^verbatim>\<open>pause\<close> gives the warning, the payload \<^verbatim>\<open>shutdown\<close> the shutdown.\<close>

theorem C8_state_directive_witness:
  "c_str (std_msgs_String.data \<lparr>std_msgs_String.data = ''pause''\<rparr>) \<noteq> ''shutdown''
   \<and> CHR 0x00 \<notin> set ''pause''
   \<and> state_callback (running_node 1 False) \<lparr>std_msgs_String.data = ''pause''\<rparr> =
       (Returned, (running_node 1 False)
          \<lparr>effects := [Session_created 640 480, Logged WARN ''Invalid state requested.'']\<rparr>)
   \<and> c_str (std_msgs_String.data \<lparr>std_msgs_String.data = ''shutdown''\<rparr>) = ''shutdown''
   \<and> state_callback (running_node 1 False) \<lparr>std_msgs_String.data = ''shutdown''\<rparr> =
       (Returned, (running_node 1 False)
          \<lparr>effects := [Session_created 640 480, Shutdown_requested]\<rparr>)"
  using C8_state_directive [of "\<lparr>std_msgs_String.data = ''pause''\<rparr>" "running_node 1 False"]
    C8_state_directive [of "\<lparr>std_msgs_String.data = ''shutdown''\<rparr>" "running_node 1 False"]
  by (simp add: c_str_def running_node_def)

text \<open>
  The claim as stated fails: the payload \<^verbatim>\<open>shutdown\<close>, a NUL byte, \<^verbatim>\<open>later\<close> is not
  \<^verbatim>\<open>shutdown\<close>, and the node requests shutdown and logs no warning.
\<close>

theorem C8_counterexample:
  "std_msgs_String.data \<lparr>std_msgs_String.data = ''shutdown'' @ [CHR 0x00] @ ''later''\<rparr> \<noteq> ''shutdown''
   \<and> state_callback (running_node 1 False)
        \<lparr>std_msgs_String.data = ''shutdown'' @ [CHR 0x00] @ ''later''\<rparr> =
       (Returned, (running_node 1 False)
          \<lparr>effects := [Session_created 640 480, Shutdown_requested]\<rparr>)
   \<and> state_callback (running_node 1 False)
        \<lparr>std_msgs_String.data = ''shutdown'' @ [CHR 0x00] @ ''later''\<rparr> \<noteq>
       (Returned, (running_node 1 False)
          \<lparr>effects := [Session_created 640 480, Logged WARN ''Invalid state requested.'']\<rparr>)"
  by (simp add: state_callback_def c_str_def rclcpp_shutdown_def running_node_def)

subsection \<open>Inputs the guards let through\<close>

text \<open>
  Claim C9. With a precision level other than 1, 2 and 3 the callback publishes
  nothing, whatever the message. A frame that passes the bootstrap is consumed without
  an error: the callback returns, and the only thing it adds after the bootstrap is the
  latency log line.
\<close>

theorem C9_unknown_precision_level:
  assumes "precision_level (ortAgent self) \<notin> {1, 2, 3}"
  shows "publications (effects (snd (topic_callback env self msg))) = publications (effects self)
    \<and> (Image.height msg \<noteq> 0 \<and> toCvCopy env msg ''bgr8'' = Inr img \<and> isInit (ortAgent self)
        \<and> (cols img = getWidth (ortAgent self) \<or> rows img = getHeight (ortAgent self)) \<longrightarrow>
        topic_callback env self msg =
          (Returned, self\<lparr>effects := effects self @ [Logged INFO ''[-FPS-]= %f\<newline>'']\<rparr>))
    \<and> (Image.height msg \<noteq> 0 \<and> toCvCopy env msg ''bgr8'' = Inr img \<and> \<not> isInit (ortAgent self)
        \<and> load_model env (setFrameDimension (ortAgent self) (cols img) (rows img)) = None \<longrightarrow>
        topic_callback env self msg =
          (Returned,
           self\<lparr>ortAgent := setInitBoolean (setFrameDimension (ortAgent self) (cols img) (rows img)) True,
                effects := effects self @
                  [Session_created (cols img) (rows img), Logged INFO ''[-FPS-]= %f\<newline>'']\<rparr>))"
proof -
  have d: "inference_dispatch env s img' = (Returned, s)"
    if "precision_level (ortAgent s) = precision_level (ortAgent self)" for s img'
    using that assms by (simp add: inference_dispatch_def)
  have pf: "process_frame env self img' =
      (case session_bootstrap env self img' of
         (Thrown e, s) \<Rightarrow> (Thrown e, s)
       | (Returned, s) \<Rightarrow> (Returned, RCLCPP_INFO s ''[-FPS-]= %f\<newline>''))" for img'
  proof (cases "session_bootstrap env self img'")
    case (Pair c s)
    with session_bootstrap_keeps(1) [OF Pair] d [of s img'] show ?thesis
      by (simp add: process_frame_def split: completion.splits)
  qed
  have pubs: "publications (effects (snd (process_frame env self img'))) =
      publications (effects self)" for img'
  proof (cases "session_bootstrap env self img'")
    case (Pair c s)
    with session_bootstrap_keeps(3) [OF Pair] show ?thesis
      unfolding pf by (simp split: completion.splits)
  qed
  have 1: "publications (effects (snd (topic_callback env self msg))) = publications (effects self)"
    using pubs by (simp add: topic_callback_def split: sum.splits)
  have 2: "topic_callback env self msg =
          (Returned, self\<lparr>effects := effects self @ [Logged INFO ''[-FPS-]= %f\<newline>'']\<rparr>)"
    if "Image.height msg \<noteq> 0 \<and> toCvCopy env msg ''bgr8'' = Inr img \<and> isInit (ortAgent self)
        \<and> (cols img = getWidth (ortAgent self) \<or> rows img = getHeight (ortAgent self))"
    using that by (auto simp: topic_callback_def pf session_bootstrap_def RCLCPP_INFO_def)
  have 3: "topic_callback env self msg =
          (Returned,
           self\<lparr>ortAgent := setInitBoolean (setFrameDimension (ortAgent self) (cols img) (rows img)) True,
                effects := effects self @
                  [Session_created (cols img) (rows img), Logged INFO ''[-FPS-]= %f\<newline>'']\<rparr>)"
    if "Image.height msg \<noteq> 0 \<and> toCvCopy env msg ''bgr8'' = Inr img \<and> \<not> isInit (ortAgent self)
        \<and> load_model env (setFrameDimension (ortAgent self) (cols img) (rows img)) = None"
    using that
    by (simp add: topic_callback_def pf session_bootstrap_def RCLCPP_INFO_def
        initORTSessionHandler_def getWidth_def getHeight_def setFrameDimension_def)
  from 1 2 3 show ?thesis by blast
qed

text \<open>Precision level 7 on the fresh stub: the session is created, nothing is published.\<close>

theorem C9_unknown_precision_level_witness:
  "precision_level (ortAgent (fresh_node 7 False)) \<notin> {1, 2, 3}
   \<and> Image.height (frame 640 480) \<noteq> 0
   \<and> toCvCopy stub_backend (frame 640 480) ''bgr8'' = Inr \<lparr>rows = 480, cols = 640, pixels = ()\<rparr>
   \<and> \<not> isInit (ortAgent (fresh_node 7 False))
   \<and> load_model stub_backend (setFrameDimension (ortAgent (fresh_node 7 False)) 640 480) = None
   \<and> topic_callback stub_backend (fresh_node 7 False) (frame 640 480) =
       (Returned,
        \<lparr>ortAgent = \<lparr>initialized = True, EPDContainer.width = 640, EPDContainer.height = 480,
                     precision_level = 7, visualize_mode = False\<rparr>,
         effects = [Session_created 640 480, Logged INFO ''[-FPS-]= %f\<newline>'']\<rparr>)
   \<and> publications (effects (snd (topic_callback stub_backend (fresh_node 7 False) (frame 640 480)))) = []"
proof -
  have p: "precision_level (ortAgent (fresh_node 7 False)) \<notin> {1, 2, 3}"
    by (simp add: fresh_node_def)
  have i: "\<not> isInit (ortAgent (fresh_node 7 False))"
    by (simp add: fresh_node_def isInit_def)
  have l: "load_model stub_backend (setFrameDimension (ortAgent (fresh_node 7 False)) 640 480) = None"
    by (simp add: stub_backend_def)
  show ?thesis
    using C9_unknown_precision_level [OF p, of stub_backend "frame 640 480"
        "\<lparr>rows = 480, cols = 640, pixels = ()\<rparr>"] p i l frame_height stub_decode
    by (simp add: fresh_node_def setInitBoolean_def setFrameDimension_def)
qed

lemma session_bootstrap_effects:
  "\<exists>evs. effects (snd (session_bootstrap env self img)) = effects self @ evs
     \<and> (\<forall>txt. Logged WARN txt \<notin> set evs)"
  by (auto simp: session_bootstrap_def initORTSessionHandler_def split: option.splits)

lemma inference_dispatch_effects:
  "\<exists>evs. effects (snd (inference_dispatch env self img)) = effects self @ evs
     \<and> (\<forall>txt. Logged WARN txt \<notin> set evs)"
  by (auto simp: inference_dispatch_def publish_def split: sum.splits)

lemma process_frame_effects:
  "\<exists>evs. effects (snd (process_frame env self img)) = effects self @ evs
     \<and> (\<forall>txt. Logged WARN txt \<notin> set evs)"
proof -
  obtain c s1 where b: "session_bootstrap env self img = (c, s1)"
    by (cases "session_bootstrap env self img")
  obtain c' s2 where i: "inference_dispatch env s1 img = (c', s2)"
    by (cases "inference_dispatch env s1 img")
  from session_bootstrap_effects [of env self img] b
  obtain evs1 where 1: "effects s1 = effects self @ evs1" "\<forall>txt. Logged WARN txt \<notin> set evs1"
    by auto
  from inference_dispatch_effects [of env s1 img] i
  obtain evs2 where 2: "effects s2 = effects s1 @ evs2" "\<forall>txt. Logged WARN txt \<notin> set evs2"
    by auto
  show ?thesis
    using b i 1 2
    by (cases c; cases c') (auto simp: process_frame_def RCLCPP_INFO_def)
qed

lemma returned_publishes_once:
  assumes "topic_callback env self msg = (Returned, self')"
    and "Image.height msg \<noteq> 0"
    and "precision_level (ortAgent self) \<in> {1, 2, 3}"
  shows "length (publications (effects self')) = Suc (length (publications (effects self)))"
proof -
  from assms(1,2) obtain img s1 s2 where d: "toCvCopy env msg ''bgr8'' = Inr img"
    and b: "session_bootstrap env self img = (Returned, s1)"
    and i: "inference_dispatch env s1 img = (Returned, s2)"
    and s: "self' = RCLCPP_INFO s2 ''[-FPS-]= %f\<newline>''"
    by (rule topic_callback_Returned)
  note k = session_bootstrap_keeps [OF b]
  have "length (publications (effects s2)) = Suc (length (publications (effects s1)))"
    using i assms(3) k(1)
    by (auto simp: inference_dispatch_def split: if_splits sum.splits)
  with k s show ?thesis by simp
qed

text \<open>
  Claim C10. The guard reads only the height. A message of width 0 and non-zero height
  is not rejected: the warning of the empty-frame guard is not logged, the message is
  decoded, and the callback does with the decoded frame what it does with that of any
  message of non-zero height: bootstrap (a node that is not initialized stores the
  frame's size and creates the session), dispatch (one publication when the callback
  returns at level 1, 2 or 3) and latency log.
\<close>

theorem C10_zero_width_not_rejected:
  assumes "Image.width msg = 0"
    and "Image.height msg \<noteq> 0"
  shows "topic_callback env self msg =
      (case toCvCopy env msg ''bgr8'' of
         Inl what \<Rightarrow> (Thrown (Cv_bridge_exception what), self)
       | Inr img \<Rightarrow> process_frame env self img)
    \<and> (\<exists>evs. effects (snd (topic_callback env self msg)) = effects self @ evs
          \<and> Logged WARN ''Input image empty. Discarding.'' \<notin> set evs)
    \<and> (Image.height other \<noteq> 0 \<and> toCvCopy env other ''bgr8'' = toCvCopy env msg ''bgr8'' \<longrightarrow>
          topic_callback env self msg = topic_callback env self other)
    \<and> (toCvCopy env msg ''bgr8'' = Inr img \<and> \<not> isInit (ortAgent self)
        \<and> load_model env (setFrameDimension (ortAgent self) (cols img) (rows img)) = None \<longrightarrow>
          isInit (ortAgent (snd (topic_callback env self msg)))
        \<and> getWidth (ortAgent (snd (topic_callback env self msg))) = cols img
        \<and> getHeight (ortAgent (snd (topic_callback env self msg))) = rows img
        \<and> sessions_created (effects (snd (topic_callback env self msg))) =
            Suc (sessions_created (effects self)))
    \<and> (fst (topic_callback env self msg) = Returned \<and> precision_level (ortAgent self) \<in> {1, 2, 3} \<longrightarrow>
          length (publications (effects (snd (topic_callback env self msg)))) =
            Suc (length (publications (effects self))))"
proof -
  have 1: "topic_callback env self msg =
      (case toCvCopy env msg ''bgr8'' of
         Inl what \<Rightarrow> (Thrown (Cv_bridge_exception what), self)
       | Inr img \<Rightarrow> process_frame env self img)"
    using assms(2) by (simp add: topic_callback_def)
  have 2: "\<exists>evs. effects (snd (topic_callback env self msg)) = effects self @ evs
          \<and> Logged WARN ''Input image empty. Discarding.'' \<notin> set evs"
  proof (cases "toCvCopy env msg ''bgr8''")
    case (Inl what)
    then show ?thesis unfolding 1 by simp
  next
    case (Inr img')
    with process_frame_effects [of env self img'] show ?thesis unfolding 1 by auto
  qed
  have 3: "topic_callback env self msg = topic_callback env self other"
    if "Image.height other \<noteq> 0 \<and> toCvCopy env other ''bgr8'' = toCvCopy env msg ''bgr8''"
    using that assms(2) by (simp add: topic_callback_def)
  have 4: "isInit (ortAgent (snd (topic_callback env self msg)))
        \<and> getWidth (ortAgent (snd (topic_callback env self msg))) = cols img
        \<and> getHeight (ortAgent (snd (topic_callback env self msg))) = rows img
        \<and> sessions_created (effects (snd (topic_callback env self msg))) =
            Suc (sessions_created (effects self))"
    if "toCvCopy env msg ''bgr8'' = Inr img \<and> \<not> isInit (ortAgent self)
        \<and> load_model env (setFrameDimension (ortAgent self) (cols img) (rows img)) = None"
    using that first_frame_bootstrap [of self msg env img, OF _ assms(2)]
    by (simp add: isInit_def getWidth_def getHeight_def setInitBoolean_def setFrameDimension_def)
  have 5: "length (publications (effects (snd (topic_callback env self msg)))) =
            Suc (length (publications (effects self)))"
    if "fst (topic_callback env self msg) = Returned \<and> precision_level (ortAgent self) \<in> {1, 2, 3}"
    using that returned_publishes_once [OF Returned_collapse assms(2), of env self] by blast
  from 1 2 3 4 5 show ?thesis by blast
qed

text \<open>
  A message of 0 by 480 on the fresh P1 stub: the session is created for 0 by 480 and
  the classification is published.
\<close>

theorem C10_zero_width_not_rejected_witness:
  "Image.width (frame 0 480) = 0
   \<and> Image.height (frame 0 480) \<noteq> 0
   \<and> toCvCopy stub_backend (frame 0 480) ''bgr8'' = Inr \<lparr>rows = 480, cols = 0, pixels = ()\<rparr>
   \<and> topic_callback stub_backend (fresh_node 1 False) (frame 0 480) =
       (Returned,
        \<lparr>ortAgent = \<lparr>initialized = True, EPDContainer.width = 0, EPDContainer.height = 480,
                     precision_level = 1, visualize_mode = False\<rparr>,
         effects = [Session_created 0 480,
                    Published p1_pub (Classification_message \<lparr>object_names = [''cup'', ''book'']\<rparr>),
                    Logged INFO ''[-FPS-]= %f\<newline>'']\<rparr>)"
proof -
  have w: "Image.width (frame 0 480) = 0" and h: "Image.height (frame 0 480) \<noteq> 0"
    by (simp_all add: frame_def)
  have d: "toCvCopy stub_backend (frame 0 480) ''bgr8'' = Inr \<lparr>rows = 480, cols = 0, pixels = ()\<rparr>"
    by (simp add: stub_defs)
  have "topic_callback stub_backend (fresh_node 1 False) (frame 0 480) =
      process_frame stub_backend (fresh_node 1 False) \<lparr>rows = 480, cols = 0, pixels = ()\<rparr>"
    using C10_zero_width_not_rejected [OF w h, of stub_backend "fresh_node 1 False", THEN conjunct1]
    by (simp only: d sum.case)
  also have "\<dots> = (Returned,
        \<lparr>ortAgent = \<lparr>initialized = True, EPDContainer.width = 0, EPDContainer.height = 480,
                     precision_level = 1, visualize_mode = False\<rparr>,
         effects = [Session_created 0 480,
                    Published p1_pub (Classification_message \<lparr>object_names = [''cup'', ''book'']\<rparr>),
                    Logged INFO ''[-FPS-]= %f\<newline>'']\<rparr>)"
    by (simp add: run_defs stub_defs)
  finally show ?thesis using w h d by blast
qed

end
